theory Spec2Isabelle
  imports Main "HOL-Library.Word"
begin

unbundle bit_operations_syntax

section \<open>sunxi-boot0: eGON header check, checksum and DRAM parameter detection\<close>

text \<open>
  A shallow embedding of \<^verbatim>\<open>sunxi-boot0.c\<close>. The first sector is held as the
  128 words that the code reads through \<^verbatim>\<open>uint32_t *\<close>; the character arrays of
  the header overlay those words in little-endian byte order, the byte order of the
  firmware format. Every \<^verbatim>\<open>fprintf\<close> becomes one message carrying the printed
  arguments, and the functions return the messages they wrote in order.
\<close>

type_synonym u8 = "8 word"
type_synonym u32 = "32 word"

subsection \<open>Constants\<close>

definition SECTOR_SIZE :: nat where
  "SECTOR_SIZE = 512"

definition EGON_CHECKSUM_SEED :: u32 where
  "EGON_CHECKSUM_SEED = 0x5f0a6c39"

definition EGON_FILESIZE_ALIGN :: u32 where
  "EGON_FILESIZE_ALIGN = 4096"

definition EGON_DRAM_PARAM_COUNT :: nat where
  "EGON_DRAM_PARAM_COUNT = 32"

text \<open>\<^verbatim>\<open>BUFFER_COUNT\<close> is \<^verbatim>\<open>SECTOR_SIZE / sizeof(uint32_t)\<close>.\<close>

definition BUFFER_COUNT :: nat where
  "BUFFER_COUNT = SECTOR_SIZE div 4"

text \<open>\<^verbatim>\<open>sizeof(struct egon_header)\<close>: 4 + 8 + 4 + 4 + 4 + 4 + 4 + 4 + 4 + 8 bytes.\<close>

definition sizeof_egon_header :: u32 where
  "sizeof_egon_header = 48"

text \<open>\<^verbatim>\<open>offsetof(struct egon_header, checksum) / sizeof(uint32_t)\<close>: byte 12, word 3.\<close>

definition checksum_offset :: nat where
  "checksum_offset = 12 div 4"

subsection \<open>DRAM parameter layouts\<close>

text \<open>
  Each layout is a struct of consecutive \<^verbatim>\<open>uint32_t\<close> fields that the code lays
  over the same window by a pointer cast, so a field is the word at its position in the
  struct. The records list the fields in the order of the source.
\<close>

record dram_param_a10 =
  a10_baseaddr :: u32
  a10_clk :: u32
  a10_type :: u32
  a10_rank_num :: u32
  a10_chip_density :: u32
  a10_io_width :: u32
  a10_bus_width :: u32
  a10_cas :: u32
  a10_zq :: u32
  a10_odt_en :: u32
  a10_size :: u32
  a10_tpr0 :: u32
  a10_tpr1 :: u32
  a10_tpr2 :: u32
  a10_tpr3 :: u32
  a10_tpr4 :: u32
  a10_tpr5 :: u32
  a10_emr1 :: u32
  a10_emr2 :: u32
  a10_emr3 :: u32

definition dram_param_a10_of :: "u32 list \<Rightarrow> dram_param_a10" where
  "dram_param_a10_of raw =
     \<lparr>a10_baseaddr = raw ! 0, a10_clk = raw ! 1, a10_type = raw ! 2,
      a10_rank_num = raw ! 3, a10_chip_density = raw ! 4, a10_io_width = raw ! 5,
      a10_bus_width = raw ! 6, a10_cas = raw ! 7, a10_zq = raw ! 8, a10_odt_en = raw ! 9,
      a10_size = raw ! 10, a10_tpr0 = raw ! 11, a10_tpr1 = raw ! 12, a10_tpr2 = raw ! 13,
      a10_tpr3 = raw ! 14, a10_tpr4 = raw ! 15, a10_tpr5 = raw ! 16, a10_emr1 = raw ! 17,
      a10_emr2 = raw ! 18, a10_emr3 = raw ! 19\<rparr>"

record dram_param_a31 =
  a31_clk :: u32
  a31_type :: u32
  a31_zq :: u32
  a31_odt_en :: u32
  a31_para1 :: u32
  a31_para2 :: u32
  a31_mr0 :: u32
  a31_mr1 :: u32
  a31_mr2 :: u32
  a31_mr3 :: u32
  a31_tpr0 :: u32
  a31_tpr1 :: u32
  a31_tpr2 :: u32
  a31_tpr3 :: u32
  a31_tpr4 :: u32
  a31_tpr5 :: u32
  a31_tpr6 :: u32
  a31_tpr7 :: u32
  a31_tpr8 :: u32
  a31_tpr9 :: u32
  a31_tpr10 :: u32
  a31_tpr11 :: u32
  a31_tpr12 :: u32
  a31_tpr13 :: u32
  a31_bits :: u32

definition dram_param_a31_of :: "u32 list \<Rightarrow> dram_param_a31" where
  "dram_param_a31_of raw =
     \<lparr>a31_clk = raw ! 0, a31_type = raw ! 1, a31_zq = raw ! 2, a31_odt_en = raw ! 3,
      a31_para1 = raw ! 4, a31_para2 = raw ! 5, a31_mr0 = raw ! 6, a31_mr1 = raw ! 7,
      a31_mr2 = raw ! 8, a31_mr3 = raw ! 9, a31_tpr0 = raw ! 10, a31_tpr1 = raw ! 11,
      a31_tpr2 = raw ! 12, a31_tpr3 = raw ! 13, a31_tpr4 = raw ! 14, a31_tpr5 = raw ! 15,
      a31_tpr6 = raw ! 16, a31_tpr7 = raw ! 17, a31_tpr8 = raw ! 18, a31_tpr9 = raw ! 19,
      a31_tpr10 = raw ! 20, a31_tpr11 = raw ! 21, a31_tpr12 = raw ! 22,
      a31_tpr13 = raw ! 23, a31_bits = raw ! 24\<rparr>"

record dram_param_h6 =
  h6_clk :: u32
  h6_type :: u32
  h6_zq :: u32
  h6_odt_en :: u32
  h6_para1 :: u32
  h6_para2 :: u32
  h6_mr0 :: u32
  h6_mr1 :: u32
  h6_mr2 :: u32
  h6_mr3 :: u32
  h6_mr4 :: u32
  h6_mr5 :: u32
  h6_mr6 :: u32
  h6_tpr0 :: u32
  h6_tpr1 :: u32
  h6_tpr2 :: u32
  h6_tpr3 :: u32
  h6_tpr4 :: u32
  h6_tpr5 :: u32
  h6_tpr6 :: u32
  h6_tpr7 :: u32
  h6_tpr8 :: u32
  h6_tpr9 :: u32
  h6_tpr10 :: u32
  h6_tpr11 :: u32
  h6_tpr12 :: u32
  h6_tpr13 :: u32
  h6_bits :: u32

definition dram_param_h6_of :: "u32 list \<Rightarrow> dram_param_h6" where
  "dram_param_h6_of raw =
     \<lparr>h6_clk = raw ! 0, h6_type = raw ! 1, h6_zq = raw ! 2, h6_odt_en = raw ! 3,
      h6_para1 = raw ! 4, h6_para2 = raw ! 5, h6_mr0 = raw ! 6, h6_mr1 = raw ! 7,
      h6_mr2 = raw ! 8, h6_mr3 = raw ! 9, h6_mr4 = raw ! 10, h6_mr5 = raw ! 11,
      h6_mr6 = raw ! 12, h6_tpr0 = raw ! 13, h6_tpr1 = raw ! 14, h6_tpr2 = raw ! 15,
      h6_tpr3 = raw ! 16, h6_tpr4 = raw ! 17, h6_tpr5 = raw ! 18, h6_tpr6 = raw ! 19,
      h6_tpr7 = raw ! 20, h6_tpr8 = raw ! 21, h6_tpr9 = raw ! 22, h6_tpr10 = raw ! 23,
      h6_tpr11 = raw ! 24, h6_tpr12 = raw ! 25, h6_tpr13 = raw ! 26,
      h6_bits = raw ! 27\<rparr>"

record dram_param_h616 =
  h616_clk :: u32
  h616_type :: u32
  h616_dx_odt :: u32
  h616_dx_dri :: u32
  h616_ca_dri :: u32
  h616_para0 :: u32
  h616_para1 :: u32
  h616_para2 :: u32
  h616_mr0 :: u32
  h616_mr1 :: u32
  h616_mr2 :: u32
  h616_mr3 :: u32
  h616_mr4 :: u32
  h616_mr5 :: u32
  h616_mr6 :: u32
  h616_mr11 :: u32
  h616_mr12 :: u32
  h616_mr13 :: u32
  h616_mr14 :: u32
  h616_mr16 :: u32
  h616_mr17 :: u32
  h616_mr22 :: u32
  h616_tpr0 :: u32
  h616_tpr1 :: u32
  h616_tpr2 :: u32
  h616_tpr3 :: u32
  h616_tpr6 :: u32
  h616_tpr10 :: u32
  h616_tpr11 :: u32
  h616_tpr12 :: u32
  h616_tpr13 :: u32
  h616_tpr14 :: u32

definition dram_param_h616_of :: "u32 list \<Rightarrow> dram_param_h616" where
  "dram_param_h616_of raw =
     \<lparr>h616_clk = raw ! 0, h616_type = raw ! 1, h616_dx_odt = raw ! 2,
      h616_dx_dri = raw ! 3, h616_ca_dri = raw ! 4, h616_para0 = raw ! 5,
      h616_para1 = raw ! 6, h616_para2 = raw ! 7, h616_mr0 = raw ! 8, h616_mr1 = raw ! 9,
      h616_mr2 = raw ! 10, h616_mr3 = raw ! 11, h616_mr4 = raw ! 12, h616_mr5 = raw ! 13,
      h616_mr6 = raw ! 14, h616_mr11 = raw ! 15, h616_mr12 = raw ! 16,
      h616_mr13 = raw ! 17, h616_mr14 = raw ! 18, h616_mr16 = raw ! 19,
      h616_mr17 = raw ! 20, h616_mr22 = raw ! 21, h616_tpr0 = raw ! 22,
      h616_tpr1 = raw ! 23, h616_tpr2 = raw ! 24, h616_tpr3 = raw ! 25,
      h616_tpr6 = raw ! 26, h616_tpr10 = raw ! 27, h616_tpr11 = raw ! 28,
      h616_tpr12 = raw ! 29, h616_tpr13 = raw ! 30, h616_tpr14 = raw ! 31\<rparr>"

subsection \<open>Output\<close>

datatype variant = A10 | H6 | A31 | H616 | Unknown_raw

text \<open>
  One constructor for each format string of the source, carrying the printed arguments.
  The four validators share the format \<^verbatim>\<open>"%s: wrong <field>: 0x%08X"\<close>, whose prefix
  names the layout. A print function writes one line for each field of its struct, here
  one message holding the struct. \<open>Fread_failed e ret\<close> stands for
  \<^verbatim>\<open>"Error: %s(): fread failed: %s (%d)"\<close> with \<^verbatim>\<open>strerror(e)\<close> and \<^verbatim>\<open>ret\<close>.
\<close>

datatype msg =
    Fread_failed nat nat
  | Checksum_mismatch u32 u32
  | Checksum_matches
  | Invalid_structure variant string u32
  | Parameters_seem_valid variant
  | Dram_para_a10 dram_param_a10
  | Dram_para_a31 dram_param_a31
  | Dram_para_h6 dram_param_h6
  | Dram_para_h616 dram_param_h616
  | Unknown_structure "u32 list"
  | Wrong_header_magic "u8 list"
  | Header_size_mismatch u32
  | Filesize_not_multiple u32
  | Filesize_empty u32
  | Found_egon_header
  | Boot0_filesize_kB u32
  | Looking_for_dram_param

subsection \<open>Validators and printers\<close>

text \<open>
  The validators return the C result (0 or -1) and the line they print. The comparisons
  are on \<^verbatim>\<open>uint32_t\<close>, so they are unsigned.
\<close>

definition dram_param_a10_validate :: "u32 list \<Rightarrow> int \<times> msg list" where
  "dram_param_a10_validate raw =
     (let param = dram_param_a10_of raw in
      if a10_baseaddr param AND 0x0FFFFFFF \<noteq> 0 then
        (- 1, [Invalid_structure A10 ''baseaddr'' (a10_baseaddr param)])
      else if a10_clk param < 100 \<or> a10_clk param > 1000 then
        (- 1, [Invalid_structure A10 ''clk'' (a10_clk param)])
      else if a10_type param \<noteq> 2 \<and> a10_type param \<noteq> 3 then
        (- 1, [Invalid_structure A10 ''type'' (a10_type param)])
      else if a10_odt_en param \<noteq> 0 \<and> a10_odt_en param \<noteq> 1 then
        (- 1, [Invalid_structure A10 ''odt_en'' (a10_odt_en param)])
      else (0, [Parameters_seem_valid A10]))"

definition dram_param_a31_validate :: "u32 list \<Rightarrow> int \<times> msg list" where
  "dram_param_a31_validate raw =
     (let param = dram_param_a31_of raw in
      if a31_clk param < 100 \<or> a31_clk param > 1000 then
        (- 1, [Invalid_structure A31 ''clk'' (a31_clk param)])
      else if a31_type param \<noteq> 2 \<and> a31_type param \<noteq> 3 \<and>
              a31_type param \<noteq> 6 \<and> a31_type param \<noteq> 7 then
        (- 1, [Invalid_structure A31 ''type'' (a31_type param)])
      else if a31_odt_en param \<noteq> 0 \<and> a31_odt_en param \<noteq> 1 then
        (- 1, [Invalid_structure A31 ''odt_en'' (a31_odt_en param)])
      else (0, [Parameters_seem_valid A31]))"

definition dram_param_h6_validate :: "u32 list \<Rightarrow> int \<times> msg list" where
  "dram_param_h6_validate raw =
     (let param = dram_param_h6_of raw in
      if h6_clk param < 100 \<or> h6_clk param > 1000 then
        (- 1, [Invalid_structure H6 ''clk'' (h6_clk param)])
      else if h6_type param \<noteq> 2 \<and> h6_type param \<noteq> 3 \<and>
              h6_type param \<noteq> 6 \<and> h6_type param \<noteq> 7 then
        (- 1, [Invalid_structure H6 ''type'' (h6_type param)])
      else if h6_odt_en param \<noteq> 0 \<and> h6_odt_en param \<noteq> 1 then
        (- 1, [Invalid_structure H6 ''odt_en'' (h6_odt_en param)])
      else if h6_bits param \<noteq> 16 \<and> h6_bits param \<noteq> 32 then
        (- 1, [Invalid_structure H6 ''bits'' (h6_bits param)])
      else (0, [Parameters_seem_valid H6]))"

definition dram_param_h616_validate :: "u32 list \<Rightarrow> int \<times> msg list" where
  "dram_param_h616_validate raw =
     (let param = dram_param_h616_of raw in
      if h616_clk param < 100 \<or> h616_clk param > 1200 then
        (- 1, [Invalid_structure H616 ''clk'' (h616_clk param)])
      else if h616_type param \<noteq> 2 \<and> h616_type param \<noteq> 3 \<and>
              h616_type param \<noteq> 4 \<and> h616_type param \<noteq> 6 \<and>
              h616_type param \<noteq> 7 \<and> h616_type param \<noteq> 8 then
        (- 1, [Invalid_structure H616 ''type'' (h616_type param)])
      else if h616_dx_odt param AND 0xF0F0F0F0 \<noteq> 0 then
        (- 1, [Invalid_structure H616 ''dx_odt'' (h616_dx_odt param)])
      else if h616_dx_dri param AND 0xF0F0F0F0 \<noteq> 0 then
        (- 1, [Invalid_structure H616 ''dx_dri'' (h616_dx_dri param)])
      else (0, [Parameters_seem_valid H616]))"

definition dram_param_a10_print :: "u32 list \<Rightarrow> msg list" where
  "dram_param_a10_print raw = [Dram_para_a10 (dram_param_a10_of raw)]"

definition dram_param_a31_print :: "u32 list \<Rightarrow> msg list" where
  "dram_param_a31_print raw = [Dram_para_a31 (dram_param_a31_of raw)]"

definition dram_param_h6_print :: "u32 list \<Rightarrow> msg list" where
  "dram_param_h6_print raw = [Dram_para_h6 (dram_param_h6_of raw)]"

definition dram_param_h616_print :: "u32 list \<Rightarrow> msg list" where
  "dram_param_h616_print raw = [Dram_para_h616 (dram_param_h616_of raw)]"

definition dram_param_raw_print :: "u32 list \<Rightarrow> msg list" where
  "dram_param_raw_print raw =
     [Unknown_structure (map (\<lambda>i. raw ! i) [0..<EGON_DRAM_PARAM_COUNT])]"

text \<open>
  The chain of \<^verbatim>\<open>if (!..._validate(...)) ..._print(...); else if ...\<close> that ends the
  verbose branch of \<^verbatim>\<open>output_boot0_info\<close>. It returns the layout whose print
  function ran, and everything written on the way: the complaint of each validator that
  refused the window, then the line of the one that took it, then the parameters.
\<close>

definition dram_param_select :: "u32 list \<Rightarrow> variant \<times> msg list" where
  "dram_param_select dram_param =
     (case dram_param_a10_validate dram_param of (r1, m1) \<Rightarrow>
        if r1 = 0 then (A10, m1 @ dram_param_a10_print dram_param)
        else case dram_param_h6_validate dram_param of (r2, m2) \<Rightarrow>
          if r2 = 0 then (H6, m1 @ m2 @ dram_param_h6_print dram_param)
          else case dram_param_a31_validate dram_param of (r3, m3) \<Rightarrow>
            if r3 = 0 then (A31, m1 @ m2 @ m3 @ dram_param_a31_print dram_param)
            else case dram_param_h616_validate dram_param of (r4, m4) \<Rightarrow>
              if r4 = 0 then (H616, m1 @ m2 @ m3 @ m4 @ dram_param_h616_print dram_param)
              else (Unknown_raw, m1 @ m2 @ m3 @ m4 @ dram_param_raw_print dram_param))"

subsection \<open>The eGON header\<close>

record egon_header =
  jump :: u32
  magic :: "u8 list"
  checksum :: u32
  filesize :: u32
  header_size :: u32
  header_version :: "u8 list"
  return_address :: u32
  run_address :: u32
  eGON_version :: "u8 list"
  platform_info :: "u8 list"

text \<open>The four bytes of a word in memory order, lowest byte first.\<close>

definition le_bytes :: "u32 \<Rightarrow> u8 list" where
  "le_bytes w = [ucast w, ucast (drop_bit 8 w), ucast (drop_bit 16 w), ucast (drop_bit 24 w)]"

text \<open>
  \<^verbatim>\<open>struct egon_header *header = sector\<close>: the header is the first 48 bytes of the
  sector, that is its words 0 to 11.
\<close>

definition egon_header_of :: "u32 list \<Rightarrow> egon_header" where
  "egon_header_of sector =
     \<lparr>jump = sector ! 0,
      magic = le_bytes (sector ! 1) @ le_bytes (sector ! 2),
      checksum = sector ! 3,
      filesize = sector ! 4,
      header_size = sector ! 5,
      header_version = le_bytes (sector ! 6),
      return_address = sector ! 7,
      run_address = sector ! 8,
      eGON_version = le_bytes (sector ! 9),
      platform_info = le_bytes (sector ! 10) @ le_bytes (sector ! 11)\<rparr>"

definition EGON_MAGIC_0 :: "u8 list" where
  "EGON_MAGIC_0 = map of_char ''eGON.BT0''"

definition EGON_MAGIC_1 :: "u8 list" where
  "EGON_MAGIC_1 = map of_char ''eGON.BT1''"

text \<open>
  \<^verbatim>\<open>memcmp\<close> of the C library on two buffers that hold at least \<open>n\<close> bytes: the
  sign of the difference of the first pair of bytes that differ, compared as
  \<^verbatim>\<open>unsigned char\<close>. C fixes only the sign of the result.
\<close>

fun memcmp :: "u8 list \<Rightarrow> u8 list \<Rightarrow> nat \<Rightarrow> int" where
  "memcmp (a # as) (b # bs) (Suc n) =
     (if a < b then - 1 else if b < a then 1 else memcmp as bs n)"
| "memcmp _ _ _ = 0"

subsection \<open>The input stream\<close>

text \<open>
  The \<^verbatim>\<open>FILE *inf\<close> (here \<open>inp\<close>), positioned after the first sector: \<open>ahead\<close> holds the 32-bit
  items that reads can still deliver (a stream that ends or fails after \<open>n\<close> items has
  \<open>n\<close> items ahead), \<open>errno\<close> the error number that \<^verbatim>\<open>strerror\<close> reports after a
  short read, \<open>seeks\<close> the offsets of the forward seeks done so far.
\<close>

record FILE =
  ahead :: "u32 list"
  errno :: nat
  seeks :: "u32 list"

text \<open>
  \<^verbatim>\<open>fread(buffer, sizeof(uint32_t), count, inf)\<close>: the number of whole items read, the
  items, and the stream after them.
\<close>

definition fread :: "nat \<Rightarrow> FILE \<Rightarrow> nat \<times> u32 list \<times> FILE" where
  "fread count inp =
     (let buffer = take count (ahead inp)
      in (length buffer, buffer, inp\<lparr>ahead := drop count (ahead inp)\<rparr>))"

text \<open>
  Modelled from the spec: \<^verbatim>\<open>pseek\<close> is declared in \<^verbatim>\<open>sunxi-fw.h\<close> and defined
  outside this file. The spec gives it as a forward-only seek by a byte count that fails
  on a short seek. \<^verbatim>\<open>output_boot0_info\<close> below takes the seek function as a parameter
  and only tests its result against 0; this is the instance used to run it.
\<close>

definition pseek_stream :: "FILE \<Rightarrow> u32 \<Rightarrow> int \<times> FILE" where
  "pseek_stream inp off =
     (if unat off \<le> 4 * length (ahead inp)
      then (0, inp\<lparr>ahead := drop (unat off div 4) (ahead inp), seeks := seeks inp @ [off]\<rparr>)
      else (- 1, inp\<lparr>ahead := [], seeks := seeks inp @ [off]\<rparr>))"

subsection \<open>Checksum\<close>

text \<open>
  The loop over the sectors after the first, \<^verbatim>\<open>for (; offset < header->filesize;
  offset += SECTOR_SIZE)\<close>. \<^verbatim>\<open>off_t\<close> is wider than the 32-bit file size, so the
  offset is a natural number. The loop either leaves early with the count of the short
  read (\<open>Inl\<close>) or ends with the sum (\<open>Inr\<close>).
\<close>

function egon_checksum_sectors :: "nat \<Rightarrow> nat \<Rightarrow> u32 \<Rightarrow> FILE \<Rightarrow> (nat + u32) \<times> FILE" where
  "egon_checksum_sectors offset fsize csum inp =
     (if offset < fsize then
        (case fread BUFFER_COUNT inp of (ret, buffer, inp') \<Rightarrow>
           if ret \<noteq> BUFFER_COUNT then (Inl ret, inp')
           else egon_checksum_sectors (offset + SECTOR_SIZE) fsize
                  (foldl (\<lambda>c i. c + buffer ! i) csum [0..<BUFFER_COUNT]) inp')
      else (Inr csum, inp))"
  by pat_completeness auto
termination
  by (relation "measure (\<lambda>(offset, fsize, csum, inp). fsize - offset)")
     (auto simp: SECTOR_SIZE_def)

declare egon_checksum_sectors.simps [simp del]

text \<open>
  The two summing loops of \<^verbatim>\<open>egon_checksum_verify\<close>: the sector already read, without
  the word of the checksum itself, then the rest of the file.
\<close>

definition egon_checksum_sum :: "egon_header \<Rightarrow> u32 list \<Rightarrow> FILE \<Rightarrow> (nat + u32) \<times> FILE" where
  "egon_checksum_sum header sector0 inp =
     egon_checksum_sectors SECTOR_SIZE (unat (filesize header))
       (foldl (\<lambda>c i. if i = checksum_offset then c else c + sector0 ! i)
          EGON_CHECKSUM_SEED [0..<BUFFER_COUNT])
       inp"

definition egon_checksum_verify :: "egon_header \<Rightarrow> u32 list \<Rightarrow> FILE \<Rightarrow> int \<times> msg list \<times> FILE" where
  "egon_checksum_verify header sector0 inp =
     (case egon_checksum_sum header sector0 inp of
        (Inl ret, inp') \<Rightarrow> (int ret, [Fread_failed (errno inp') ret], inp')
      | (Inr csum, inp') \<Rightarrow>
          (0,
           [if csum \<noteq> checksum header then Checksum_mismatch csum (checksum header)
            else Checksum_matches],
           inp'))"

text \<open>
  The number of turns of the loop from \<open>offset\<close>: the sector starts \<open>offset\<close>,
  \<open>offset + 512\<close>, ... that lie below \<open>fsize\<close>.
\<close>

definition sectors_after :: "nat \<Rightarrow> nat \<Rightarrow> nat" where
  "sectors_after offset fsize = (fsize + 511 - offset) div 512"

subsection \<open>The header check\<close>

text \<open>
  \<^verbatim>\<open>output_boot0_info(sector, inf, stream, verbose)\<close> returns its result, what it
  wrote to \<^verbatim>\<open>stream\<close>, and the input stream as it leaves it. The DRAM parameters are
  at \<^verbatim>\<open>(void *) header + header->header_size\<close>, after the two words that open the
  secondary header.
\<close>

definition output_boot0_info ::
  "(FILE \<Rightarrow> u32 \<Rightarrow> int \<times> FILE) \<Rightarrow> u32 list \<Rightarrow> FILE \<Rightarrow> bool \<Rightarrow> int \<times> msg list \<times> FILE" where
  "output_boot0_info pseek sector inp verbose =
     (let header = egon_header_of sector in
      if memcmp (magic header) EGON_MAGIC_0 8 > 0 then
        (0, [Wrong_header_magic (magic header)], inp)
      else if header_size header \<noteq> sizeof_egon_header then
        (0, [Header_size_mismatch (header_size header)], inp)
      else if filesize header AND (EGON_FILESIZE_ALIGN - 1) \<noteq> 0 then
        (0, [Filesize_not_multiple (filesize header)], inp)
      else if filesize header = 0 then
        (0, [Filesize_empty (filesize header)], inp)
      else if verbose then
        (let dram_param = drop ((unat (header_size header) + 8) div 4) sector;
             found = [Found_egon_header, Boot0_filesize_kB (drop_bit 10 (filesize header))]
         in case egon_checksum_verify header sector inp of (ret, out, inp') \<Rightarrow>
              if ret \<noteq> 0 then (0, found @ out, inp')
              else (uint (filesize header div of_nat SECTOR_SIZE - 1),
                    found @ out @ [Looking_for_dram_param] @ snd (dram_param_select dram_param),
                    inp'))
      else
        (case pseek inp (filesize header - of_nat SECTOR_SIZE) of (ret, inp') \<Rightarrow>
           if ret \<noteq> 0 then (0, [], inp')
           else (uint (filesize header div of_nat SECTOR_SIZE - 1), [], inp')))"

subsection \<open>The specification's view of the layouts\<close>

text \<open>
  The plausibility table of the specification, one predicate for each layout, on the
  window decoded under that layout.
\<close>

definition a10_plausible :: "dram_param_a10 \<Rightarrow> bool" where
  "a10_plausible p \<longleftrightarrow>
     take_bit 28 (a10_baseaddr p) = 0 \<and> unat (a10_clk p) \<in> {100..1000} \<and>
     a10_type p \<in> {2, 3} \<and> a10_odt_en p \<in> {0, 1}"

definition h6_plausible :: "dram_param_h6 \<Rightarrow> bool" where
  "h6_plausible p \<longleftrightarrow>
     unat (h6_clk p) \<in> {100..1000} \<and> h6_type p \<in> {2, 3, 6, 7} \<and>
     h6_odt_en p \<in> {0, 1} \<and> h6_bits p \<in> {16, 32}"

definition a31_plausible :: "dram_param_a31 \<Rightarrow> bool" where
  "a31_plausible p \<longleftrightarrow>
     unat (a31_clk p) \<in> {100..1000} \<and> a31_type p \<in> {2, 3, 6, 7} \<and>
     a31_odt_en p \<in> {0, 1}"

definition h616_plausible :: "dram_param_h616 \<Rightarrow> bool" where
  "h616_plausible p \<longleftrightarrow>
     unat (h616_clk p) \<in> {100..1200} \<and> h616_type p \<in> {2, 3, 4, 6, 7, 8} \<and>
     h616_dx_odt p AND 0xF0F0F0F0 = 0 \<and> h616_dx_dri p AND 0xF0F0F0F0 = 0"

text \<open>
  The detector as the specification words it: H6, then A31, then A10, then H616, the
  first plausible layout wins, and the raw dump is the fallback.
\<close>

definition identify_spec :: "u32 list \<Rightarrow> variant" where
  "identify_spec window =
     (if h6_plausible (dram_param_h6_of window) then H6
      else if a31_plausible (dram_param_a31_of window) then A31
      else if a10_plausible (dram_param_a10_of window) then A10
      else if h616_plausible (dram_param_h616_of window) then H616
      else Unknown_raw)"

subsection \<open>Sample inputs\<close>

text \<open>
  A window that is plausible both as H6 and as A31: clock 200, type 3, odt_en 0, bits 16.
\<close>

definition h6_a31_window :: "u32 list" where
  "h6_a31_window = (replicate 32 0) [0 := 200, 1 := 3, 27 := 16]"

text \<open>A window that is plausible as A10: base 0x40000000, clock 400, type 3.\<close>

definition a10_window :: "u32 list" where
  "a10_window = (replicate 32 0) [0 := 0x40000000, 1 := 400, 2 := 3]"

text \<open>
  The reference checksum, as the specification words it, over the image as one run of
  words (the first sector, then what the stream holds): the seed, the 128 words of
  sector 0 but for word 3, and the 128 words of every later sector that starts below
  the file size, all added modulo \<open>2 ^ 32\<close>.
\<close>

definition sector_words :: "u32 list \<Rightarrow> nat \<Rightarrow> u32 list" where
  "sector_words img k = take 128 (drop (128 * k) img)"

definition checksum_reference :: "u32 list \<Rightarrow> nat \<Rightarrow> u32" where
  "checksum_reference img fsize =
     0x5f0a6c39
     + sum_list (map (\<lambda>i. img ! i) (filter (\<lambda>i. i \<noteq> 3) [0..<128]))
     + sum_list (map (\<lambda>k. sum_list (sector_words img k))
         (filter (\<lambda>k. 512 * k < fsize) [1..<Suc (fsize div 512)]))"

text \<open>
  A first sector with the given magic words, checksum, file size and header size, and
  zeros after the header; the sector of a boot0 image of 4096 bytes that declares the
  checksum 0; and a stream that holds \<open>n\<close> words, each of them 1.
\<close>

definition sample_sector :: "u32 \<Rightarrow> u32 \<Rightarrow> u32 \<Rightarrow> u32 \<Rightarrow> u32 \<Rightarrow> u32 list" where
  "sample_sector m1 m2 csum fsize hsize =
     [0xEA000016, m1, m2, csum, fsize, hsize] @ replicate 122 0"

definition boot0_sector :: "u32 list" where
  "boot0_sector = sample_sector 0x4E4F4765 0x3054422E 0 4096 48"

definition sample_stream :: "nat \<Rightarrow> FILE" where
  "sample_stream n = \<lparr>ahead = replicate n 1, errno = 0, seeks = []\<rparr>"

text \<open>
  A stream of 1920 words in which the eight sectors after the first 4096 bytes of the
  image sum to \<open>- 4096\<close>.
\<close>

definition cancelling_stream :: FILE where
  "cancelling_stream =
     \<lparr>ahead = replicate 896 0 @ [0xFFFFF000] @ replicate 1023 0, errno = 0, seeks = []\<rparr>"

text \<open>
  The valid primary header of the specification, for a boot0 image: the magic of boot0,
  a header size of 48, and a file size that is a positive multiple of 4096.
\<close>

definition valid_boot0_header :: "egon_header \<Rightarrow> bool" where
  "valid_boot0_header header \<longleftrightarrow>
     magic header = EGON_MAGIC_0 \<and> header_size header = 48 \<and>
     0 < unat (filesize header) \<and> 4096 dvd unat (filesize header)"

text \<open>
  The sample sector with the magic bytes "BADMAGIC", and with the magic of boot1; both
  are valid in every other field.
\<close>

definition bad_magic_sector :: "u32 list" where
  "bad_magic_sector = sample_sector 0x4D444142 0x43494741 0 4096 48"

definition boot1_sector :: "u32 list" where
  "boot1_sector = sample_sector 0x4E4F4765 0x3154422E 0 4096 48"

text \<open>The messages of the print functions: the DRAM parameter report.\<close>

fun is_dram_report :: "msg \<Rightarrow> bool" where
  "is_dram_report (Dram_para_a10 _) = True"
| "is_dram_report (Dram_para_a31 _) = True"
| "is_dram_report (Dram_para_h6 _) = True"
| "is_dram_report (Dram_para_h616 _) = True"
| "is_dram_report (Unknown_structure _) = True"
| "is_dram_report _ = False"

section \<open>Properties\<close>

subsection \<open>Validators\<close>

lemma take_bit_28_eq_and: "take_bit 28 (w :: u32) = w AND 0x0FFFFFFF"
  by (simp add: take_bit_eq_mask mask_numeral)

lemma a10_validate_accepts:
  "fst (dram_param_a10_validate raw) = 0 \<longleftrightarrow> a10_plausible (dram_param_a10_of raw)"
  by (auto simp: dram_param_a10_validate_def a10_plausible_def Let_def take_bit_28_eq_and
        word_less_nat_alt not_less)

lemma h6_validate_accepts:
  "fst (dram_param_h6_validate raw) = 0 \<longleftrightarrow> h6_plausible (dram_param_h6_of raw)"
  by (auto simp: dram_param_h6_validate_def h6_plausible_def Let_def
        word_less_nat_alt not_less)

lemma a31_validate_accepts:
  "fst (dram_param_a31_validate raw) = 0 \<longleftrightarrow> a31_plausible (dram_param_a31_of raw)"
  by (auto simp: dram_param_a31_validate_def a31_plausible_def Let_def
        word_less_nat_alt not_less)

lemma h616_validate_accepts:
  "fst (dram_param_h616_validate raw) = 0 \<longleftrightarrow> h616_plausible (dram_param_h616_of raw)"
  by (auto simp: dram_param_h616_validate_def h616_plausible_def Let_def
        word_less_nat_alt not_less)

text \<open>
  Claim C4. Each validator returns 0 exactly when the window, decoded under its layout,
  passes every predicate that the specification tabulates for the layout. For H616:
  the clock is in [100,1200], the type is one of 2, 3, 4, 6, 7, 8, and neither dx_odt
  nor dx_dri has a bit of 0xF0F0F0F0. For H6: the clock is in [100,1000], the type is
  one of 2, 3, 6, 7, odt_en is 0 or 1, and bits is 16 or 32.
\<close>

theorem validators_accept_iff_plausible:
  "(fst (dram_param_h616_validate raw) = 0 \<longleftrightarrow>
      unat (h616_clk (dram_param_h616_of raw)) \<in> {100..1200} \<and>
      h616_type (dram_param_h616_of raw) \<in> {2, 3, 4, 6, 7, 8} \<and>
      h616_dx_odt (dram_param_h616_of raw) AND 0xF0F0F0F0 = 0 \<and>
      h616_dx_dri (dram_param_h616_of raw) AND 0xF0F0F0F0 = 0) \<and>
   (fst (dram_param_h6_validate raw) = 0 \<longleftrightarrow>
      unat (h6_clk (dram_param_h6_of raw)) \<in> {100..1000} \<and>
      h6_type (dram_param_h6_of raw) \<in> {2, 3, 6, 7} \<and>
      h6_odt_en (dram_param_h6_of raw) \<in> {0, 1} \<and>
      h6_bits (dram_param_h6_of raw) \<in> {16, 32}) \<and>
   (fst (dram_param_a31_validate raw) = 0 \<longleftrightarrow> a31_plausible (dram_param_a31_of raw)) \<and>
   (fst (dram_param_a10_validate raw) = 0 \<longleftrightarrow> a10_plausible (dram_param_a10_of raw))"
  using h616_validate_accepts [of raw] h6_validate_accepts [of raw]
    a31_validate_accepts [of raw] a10_validate_accepts [of raw]
  unfolding h616_plausible_def h6_plausible_def by blast

subsection \<open>A10 against the layouts that start with the clock\<close>

lemma low28_zero_not_clock:
  fixes w :: u32
  assumes "take_bit 28 w = 0" and "100 \<le> unat w" and "unat w \<le> 1200"
  shows False
proof -
  have "unat w < 2 ^ 28" using assms(3) by simp
  then have "take_bit 28 (unat w) = unat w" by (simp add: take_bit_nat_eq_self)
  then have "unat (take_bit 28 w) = unat w" by (simp add: unsigned_take_bit_eq)
  with assms(1,2) show False by simp
qed

lemma a10_of_word0: "a10_baseaddr (dram_param_a10_of raw) = raw ! 0"
  by (simp add: dram_param_a10_of_def)

lemma h6_of_word0: "h6_clk (dram_param_h6_of raw) = raw ! 0"
  by (simp add: dram_param_h6_of_def)

lemma a31_of_word0: "a31_clk (dram_param_a31_of raw) = raw ! 0"
  by (simp add: dram_param_a31_of_def)

lemma h616_of_word0: "h616_clk (dram_param_h616_of raw) = raw ! 0"
  by (simp add: dram_param_h616_of_def)

lemma a10_not_h6:
  "a10_plausible (dram_param_a10_of raw) \<Longrightarrow> \<not> h6_plausible (dram_param_h6_of raw)"
  unfolding a10_plausible_def h6_plausible_def a10_of_word0 h6_of_word0
  using low28_zero_not_clock [of "raw ! 0"] by auto

lemma a10_not_a31:
  "a10_plausible (dram_param_a10_of raw) \<Longrightarrow> \<not> a31_plausible (dram_param_a31_of raw)"
  unfolding a10_plausible_def a31_plausible_def a10_of_word0 a31_of_word0
  using low28_zero_not_clock [of "raw ! 0"] by auto

lemma a10_not_h616:
  "a10_plausible (dram_param_a10_of raw) \<Longrightarrow> \<not> h616_plausible (dram_param_h616_of raw)"
  unfolding a10_plausible_def h616_plausible_def a10_of_word0 h616_of_word0
  using low28_zero_not_clock [of "raw ! 0"] by auto

text \<open>
  Claim C10. No window is accepted by the A10 validator and also by the H6, the A31 or
  the H616 validator: A10 wants the low 28 bits of word 0 to be zero, the other three
  read word 0 as a clock between 100 and 1000 (1200 for H616), and no 32-bit value is
  both. So a window that one of the three accepts is never taken by A10, whatever the
  place of A10 in the chain.
\<close>

theorem a10_excludes_h6_a31_h616:
  "\<not> (fst (dram_param_a10_validate raw) = 0 \<and>
      (fst (dram_param_h6_validate raw) = 0 \<or> fst (dram_param_a31_validate raw) = 0 \<or>
       fst (dram_param_h616_validate raw) = 0)) \<and>
   \<not> (take_bit 28 (a10_baseaddr (dram_param_a10_of raw)) = 0 \<and>
      unat (h616_clk (dram_param_h616_of raw)) \<in> {100..1200})"
  using a10_not_h6 [of raw] a10_not_a31 [of raw] a10_not_h616 [of raw]
    low28_zero_not_clock [of "raw ! 0"]
  by (auto simp: a10_validate_accepts h6_validate_accepts a31_validate_accepts
      h616_validate_accepts a10_of_word0 h616_of_word0)

theorem a10_excludes_h6_a31_h616_witness:
  "fst (dram_param_a10_validate a10_window) = 0 \<and>
   fst (dram_param_h6_validate a10_window) \<noteq> 0 \<and>
   fst (dram_param_a31_validate a10_window) \<noteq> 0 \<and>
   fst (dram_param_h616_validate a10_window) \<noteq> 0"
proof -
  have "a10_plausible (dram_param_a10_of a10_window)"
    by (simp add: a10_plausible_def dram_param_a10_of_def a10_window_def)
  then have "fst (dram_param_a10_validate a10_window) = 0"
    by (simp add: a10_validate_accepts)
  with a10_excludes_h6_a31_h616 [of a10_window] show ?thesis by blast
qed

subsection \<open>The order of detection\<close>

lemma dram_param_select_variant:
  "fst (dram_param_select raw) =
     (if fst (dram_param_a10_validate raw) = 0 then A10
      else if fst (dram_param_h6_validate raw) = 0 then H6
      else if fst (dram_param_a31_validate raw) = 0 then A31
      else if fst (dram_param_h616_validate raw) = 0 then H616
      else Unknown_raw)"
  by (simp add: dram_param_select_def split: prod.splits)

text \<open>
  Claim C3. The layout that the chain of the code selects (A10 is tried first there) is
  the layout that the specification's order H6, A31, A10, H616 selects, with the raw
  dump when no layout is plausible; and a window that is plausible both as H6 and as
  A31 is reported as H6.
\<close>

theorem dram_param_select_priority:
  "fst (dram_param_select window) = identify_spec window \<and>
   (h6_plausible (dram_param_h6_of window) \<and> a31_plausible (dram_param_a31_of window) \<longrightarrow>
      fst (dram_param_select window) = H6)"
  using a10_not_h6 [of window] a10_not_a31 [of window]
  by (auto simp: dram_param_select_variant identify_spec_def a10_validate_accepts
      h6_validate_accepts a31_validate_accepts h616_validate_accepts)

theorem dram_param_select_priority_witness:
  "h6_plausible (dram_param_h6_of h6_a31_window) \<and>
   a31_plausible (dram_param_a31_of h6_a31_window) \<and>
   fst (dram_param_select h6_a31_window) = H6 \<and>
   identify_spec h6_a31_window = H6"
proof -
  have h6: "h6_plausible (dram_param_h6_of h6_a31_window)"
    by (simp add: h6_plausible_def dram_param_h6_of_def h6_a31_window_def)
  have a31: "a31_plausible (dram_param_a31_of h6_a31_window)"
    by (simp add: a31_plausible_def dram_param_a31_of_def h6_a31_window_def)
  from dram_param_select_priority [of h6_a31_window] h6 a31 show ?thesis by auto
qed

subsection \<open>The summing loops\<close>

lemma sectors_after_step:
  "offset < fsize \<Longrightarrow> sectors_after offset fsize = Suc (sectors_after (offset + 512) fsize)"
  unfolding sectors_after_def by (simp add: le_div_geq)

lemma sectors_after_done: "\<not> offset < fsize \<Longrightarrow> sectors_after offset fsize = 0"
  unfolding sectors_after_def by simp

lemma foldl_add_nth:
  "n \<le> length buffer \<Longrightarrow>
   foldl (\<lambda>c i. c + buffer ! i) (csum :: u32) [0..<n] = csum + sum_list (take n buffer)"
proof (induction n)
  case 0
  then show ?case by simp
next
  case (Suc n)
  then show ?case by (simp add: take_Suc_conv_app_nth add.assoc)
qed

lemma foldl_add_skip:
  "foldl (\<lambda>c i. if i = k then c else c + f i) (csum :: u32) ks =
   csum + sum_list (map f (filter (\<lambda>i. i \<noteq> k) ks))"
  by (induction ks arbitrary: csum) (simp_all add: add.assoc)

lemma fread_full:
  "n \<le> length (ahead inp) \<Longrightarrow>
   fread n inp = (n, take n (ahead inp), inp\<lparr>ahead := drop n (ahead inp)\<rparr>)"
  by (simp add: fread_def Let_def)

lemma fread_short:
  "length (ahead inp) < n \<Longrightarrow> fread n inp = (length (ahead inp), ahead inp, inp\<lparr>ahead := []\<rparr>)"
  by (simp add: fread_def Let_def)

lemma egon_checksum_sectors_full:
  "BUFFER_COUNT * sectors_after offset fsize \<le> length (ahead inp) \<Longrightarrow>
   egon_checksum_sectors offset fsize csum inp =
     (Inr (csum + sum_list (take (BUFFER_COUNT * sectors_after offset fsize) (ahead inp))),
      inp\<lparr>ahead := drop (BUFFER_COUNT * sectors_after offset fsize) (ahead inp)\<rparr>)"
proof (induction offset fsize csum inp rule: egon_checksum_sectors.induct)
  case (1 offset fsize csum inp)
  show ?case
  proof (cases "offset < fsize")
    case False
    then show ?thesis
      by (subst egon_checksum_sectors.simps) (simp add: sectors_after_done)
  next
    case True
    define n where "n = sectors_after (offset + SECTOR_SIZE) fsize"
    have step: "sectors_after offset fsize = Suc n"
      using True by (simp add: n_def sectors_after_step SECTOR_SIZE_def)
    have len: "BUFFER_COUNT + BUFFER_COUNT * n \<le> length (ahead inp)"
      using "1.prems" by (simp add: step)
    then have rd: "fread BUFFER_COUNT inp =
        (BUFFER_COUNT, take BUFFER_COUNT (ahead inp), inp\<lparr>ahead := drop BUFFER_COUNT (ahead inp)\<rparr>)"
      by (simp add: fread_full)
    have inner: "foldl (\<lambda>c i. c + take BUFFER_COUNT (ahead inp) ! i) csum [0..<BUFFER_COUNT] =
        csum + sum_list (take BUFFER_COUNT (ahead inp))"
      using len by (subst foldl_add_nth) simp_all
    have ih: "egon_checksum_sectors (offset + SECTOR_SIZE) fsize
          (csum + sum_list (take BUFFER_COUNT (ahead inp)))
          (inp\<lparr>ahead := drop BUFFER_COUNT (ahead inp)\<rparr>) =
        (Inr (csum + sum_list (take BUFFER_COUNT (ahead inp)) +
              sum_list (take (BUFFER_COUNT * n) (drop BUFFER_COUNT (ahead inp)))),
         inp\<lparr>ahead := drop (BUFFER_COUNT * n) (drop BUFFER_COUNT (ahead inp))\<rparr>)"
      using "1.IH" [OF True rd [symmetric] refl] len
      by (simp add: inner n_def)
    have "egon_checksum_sectors offset fsize csum inp =
        egon_checksum_sectors (offset + SECTOR_SIZE) fsize
          (csum + sum_list (take BUFFER_COUNT (ahead inp)))
          (inp\<lparr>ahead := drop BUFFER_COUNT (ahead inp)\<rparr>)"
      using True by (subst egon_checksum_sectors.simps) (simp add: rd inner)
    also note ih
    finally have run: "egon_checksum_sectors offset fsize csum inp =
        (Inr (csum + sum_list (take BUFFER_COUNT (ahead inp)) +
              sum_list (take (BUFFER_COUNT * n) (drop BUFFER_COUNT (ahead inp)))),
         inp\<lparr>ahead := drop (BUFFER_COUNT * n) (drop BUFFER_COUNT (ahead inp))\<rparr>)" .
    have tk: "take (BUFFER_COUNT * Suc n) (ahead inp) =
        take BUFFER_COUNT (ahead inp) @ take (BUFFER_COUNT * n) (drop BUFFER_COUNT (ahead inp))"
      using take_add [of BUFFER_COUNT "BUFFER_COUNT * n" "ahead inp"] by simp
    have dr: "drop (BUFFER_COUNT * Suc n) (ahead inp) =
        drop (BUFFER_COUNT * n) (drop BUFFER_COUNT (ahead inp))"
      by (simp add: add.commute)
    show ?thesis
      unfolding step tk dr run by (simp add: add.assoc)
  qed
qed

lemma egon_checksum_sectors_short:
  "length (ahead inp) < BUFFER_COUNT * sectors_after offset fsize \<Longrightarrow>
   egon_checksum_sectors offset fsize csum inp =
     (Inl (length (ahead inp) mod BUFFER_COUNT), inp\<lparr>ahead := []\<rparr>)"
proof (induction offset fsize csum inp rule: egon_checksum_sectors.induct)
  case (1 offset fsize csum inp)
  have lt: "offset < fsize"
    using "1.prems" by (cases "offset < fsize") (simp_all add: sectors_after_done)
  define n where "n = sectors_after (offset + SECTOR_SIZE) fsize"
  have step: "sectors_after offset fsize = Suc n"
    using lt by (simp add: n_def sectors_after_step SECTOR_SIZE_def)
  show ?case
  proof (cases "length (ahead inp) < BUFFER_COUNT")
    case True
    then show ?thesis
      using lt by (subst egon_checksum_sectors.simps) (simp add: fread_short)
  next
    case False
    then have len: "BUFFER_COUNT \<le> length (ahead inp)" by simp
    then have rd: "fread BUFFER_COUNT inp =
        (BUFFER_COUNT, take BUFFER_COUNT (ahead inp), inp\<lparr>ahead := drop BUFFER_COUNT (ahead inp)\<rparr>)"
      by (simp add: fread_full)
    have short': "length (ahead (inp\<lparr>ahead := drop BUFFER_COUNT (ahead inp)\<rparr>)) < BUFFER_COUNT * n"
      using "1.prems" len by (simp add: step)
    have "egon_checksum_sectors offset fsize csum inp =
        egon_checksum_sectors (offset + SECTOR_SIZE) fsize
          (foldl (\<lambda>c i. c + take BUFFER_COUNT (ahead inp) ! i) csum [0..<BUFFER_COUNT])
          (inp\<lparr>ahead := drop BUFFER_COUNT (ahead inp)\<rparr>)"
      using lt by (subst egon_checksum_sectors.simps) (simp add: rd)
    also have "\<dots> = (Inl (length (drop BUFFER_COUNT (ahead inp)) mod BUFFER_COUNT),
        inp\<lparr>ahead := []\<rparr>)"
      using "1.IH" [OF lt rd [symmetric] refl _ short' [unfolded n_def]] by simp
    finally show ?thesis
      using len by (simp add: le_mod_geq)
  qed
qed

subsection \<open>The checksum against its reference\<close>

lemma sum_list_nth_skip:
  "k < n \<Longrightarrow> n \<le> length xs \<Longrightarrow>
   sum_list (map (\<lambda>i. xs ! i) (filter (\<lambda>i. i \<noteq> k) [0..<n])) =
   sum_list (take n xs) - (xs ! k :: u32)"
proof (induction n)
  case 0
  then show ?case by simp
next
  case (Suc n)
  show ?case
  proof (cases "k = n")
    case True
    have "filter (\<lambda>i. i \<noteq> n) [0..<n] = [0..<n]" by (rule filter_True) simp
    moreover have "map (\<lambda>i. xs ! i) [0..<n] = take n xs"
      using Suc.prems by (simp add: list_eq_iff_nth_eq)
    ultimately show ?thesis
      using Suc.prems True by (simp add: take_Suc_conv_app_nth)
  next
    case False
    with Suc show ?thesis by (simp add: take_Suc_conv_app_nth)
  qed
qed

lemma filter_less_upt: "c \<le> b \<Longrightarrow> filter (\<lambda>k. k < c) [a..<b] = [a..<c]"
proof (induction b)
  case 0
  then show ?case by simp
next
  case (Suc b)
  then show ?case by (cases "c = Suc b") auto
qed

lemma sectors_below_filesize:
  "filter (\<lambda>k. 512 * k < fsize) [1..<Suc (fsize div 512)] = [1..<Suc (sectors_after 512 fsize)]"
proof -
  have "(512 * k < fsize) = (k < Suc (sectors_after 512 fsize))" if "1 \<le> k" for k
    using that unfolding sectors_after_def by (cases "fsize = 0") auto
  then have "filter (\<lambda>k. 512 * k < fsize) [1..<Suc (fsize div 512)] =
      filter (\<lambda>k. k < Suc (sectors_after 512 fsize)) [1..<Suc (fsize div 512)]"
    by (intro filter_cong) auto
  also have "\<dots> = [1..<Suc (sectors_after 512 fsize)]"
    by (rule filter_less_upt) (simp add: sectors_after_def div_le_mono)
  finally show ?thesis .
qed

lemma sum_list_sectors:
  "length sector0 = 128 \<Longrightarrow>
   sum_list (map (\<lambda>k. sum_list (sector_words (sector0 @ rest) k)) [1..<Suc n]) =
   sum_list (take (128 * n) rest)"
proof (induction n)
  case 0
  then show ?case by simp
next
  case (Suc n)
  have "take (128 * Suc n) rest = take (128 * n + 128) rest"
    by (simp add: add.commute)
  also have "\<dots> = take (128 * n) rest @ take 128 (drop (128 * n) rest)"
    by (rule take_add)
  finally have tk: "sum_list (take (128 * Suc n) rest) =
      sum_list (take (128 * n) rest) + sum_list (take 128 (drop (128 * n) rest))"
    by simp
  have sw: "sector_words (sector0 @ rest) (Suc n) = take 128 (drop (128 * n) rest)"
    using Suc.prems by (simp add: sector_words_def)
  have "[1..<Suc (Suc n)] = [1..<Suc n] @ [Suc n]" by simp
  then show ?case
    unfolding tk using Suc sw by (simp del: upt_Suc)
qed

lemma checksum_reference_closed:
  assumes "length sector0 = 128"
  shows "checksum_reference (sector0 @ rest) fsize =
     EGON_CHECKSUM_SEED + (sum_list sector0 - sector0 ! 3) +
     sum_list (take (128 * sectors_after 512 fsize) rest)"
proof -
  have "map (\<lambda>i. (sector0 @ rest) ! i) (filter (\<lambda>i. i \<noteq> 3) [0..<128]) =
      map (\<lambda>i. sector0 ! i) (filter (\<lambda>i. i \<noteq> 3) [0..<128])"
    using assms by (intro map_cong) (auto simp: nth_append)
  then have "sum_list (map (\<lambda>i. (sector0 @ rest) ! i) (filter (\<lambda>i. i \<noteq> 3) [0..<128])) =
      sum_list (map (\<lambda>i. sector0 ! i) (filter (\<lambda>i. i \<noteq> 3) [0..<128]))"
    by (simp only:)
  also have "\<dots> = sum_list (take 128 sector0) - sector0 ! 3"
    by (rule sum_list_nth_skip) (simp_all add: assms)
  finally have first: "sum_list (map (\<lambda>i. (sector0 @ rest) ! i) (filter (\<lambda>i. i \<noteq> 3) [0..<128])) =
      sum_list sector0 - sector0 ! 3"
    using assms by simp
  have others: "sum_list (map (\<lambda>k. sum_list (sector_words (sector0 @ rest) k))
        (filter (\<lambda>k. 512 * k < fsize) [1..<Suc (fsize div 512)])) =
      sum_list (take (128 * sectors_after 512 fsize) rest)"
    unfolding sectors_below_filesize by (rule sum_list_sectors [OF assms])
  show ?thesis
    unfolding checksum_reference_def first others EGON_CHECKSUM_SEED_def ..
qed

lemma egon_checksum_sum_closed:
  assumes "length sector0 = BUFFER_COUNT"
    and "BUFFER_COUNT * sectors_after SECTOR_SIZE (unat (filesize header)) \<le> length (ahead inp)"
  shows "egon_checksum_sum header sector0 inp =
     (Inr (EGON_CHECKSUM_SEED + (sum_list sector0 - sector0 ! checksum_offset) +
           sum_list (take (BUFFER_COUNT * sectors_after SECTOR_SIZE (unat (filesize header)))
             (ahead inp))),
      inp\<lparr>ahead := drop (BUFFER_COUNT * sectors_after SECTOR_SIZE (unat (filesize header)))
        (ahead inp)\<rparr>)"
proof -
  have "checksum_offset < BUFFER_COUNT"
    by (simp add: checksum_offset_def BUFFER_COUNT_def SECTOR_SIZE_def)
  then have "foldl (\<lambda>c i. if i = checksum_offset then c else c + sector0 ! i)
      EGON_CHECKSUM_SEED [0..<BUFFER_COUNT] =
      EGON_CHECKSUM_SEED + (sum_list sector0 - sector0 ! checksum_offset)"
    using assms(1) sum_list_nth_skip [of checksum_offset BUFFER_COUNT sector0]
    by (simp add: foldl_add_skip)
  then show ?thesis
    unfolding egon_checksum_sum_def using assms(2) by (simp add: egon_checksum_sectors_full)
qed

lemma sizes: "BUFFER_COUNT = 128" "SECTOR_SIZE = 512" "checksum_offset = 3"
  by (simp_all add: BUFFER_COUNT_def SECTOR_SIZE_def checksum_offset_def)
text \<open>
  Claim C1. When the stream still holds every sector of the file, the sum that the
  verifier reaches is the reference checksum: the seed 0x5f0a6c39, plus the words of
  sector 0 without word 3, plus all the words of the sectors that start below the file
  size, modulo \<open>2 ^ 32\<close>. It is this value that the verifier compares with the header
  and prints on a mismatch.
\<close>

theorem egon_checksum_is_reference:
  assumes "length sector0 = 128"
    and "128 * sectors_after 512 (unat (filesize header)) \<le> length (ahead inp)"
  shows "fst (egon_checksum_sum header sector0 inp) =
      Inr (checksum_reference (sector0 @ ahead inp) (unat (filesize header))) \<and>
    fst (snd (egon_checksum_verify header sector0 inp)) =
      [if checksum_reference (sector0 @ ahead inp) (unat (filesize header)) \<noteq> checksum header
       then Checksum_mismatch (checksum_reference (sector0 @ ahead inp) (unat (filesize header)))
              (checksum header)
       else Checksum_matches]"
  using assms egon_checksum_sum_closed [of sector0 header inp]
  by (simp add: sizes checksum_reference_closed egon_checksum_verify_def)

lemma boot0_sector_header:
  "egon_header_of boot0_sector =
     \<lparr>jump = 0xEA000016, magic = EGON_MAGIC_0, checksum = 0, filesize = 4096,
      header_size = 48, header_version = [0, 0, 0, 0], return_address = 0, run_address = 0,
      eGON_version = [0, 0, 0, 0], platform_info = [0, 0, 0, 0, 0, 0, 0, 0]\<rparr>"
  by (simp add: egon_header_of_def boot0_sector_def sample_sector_def le_bytes_def
      EGON_MAGIC_0_def)

theorem egon_checksum_is_reference_witness:
  "length boot0_sector = 128 \<and>
   128 * sectors_after 512 (unat (filesize (egon_header_of boot0_sector))) \<le>
     length (ahead (sample_stream 896)) \<and>
   fst (egon_checksum_sum (egon_header_of boot0_sector) boot0_sector (sample_stream 896)) =
     Inr 0xc7ae0992 \<and>
   checksum_reference (boot0_sector @ ahead (sample_stream 896)) 4096 = 0xc7ae0992"
proof -
  have len: "length boot0_sector = 128"
    by (simp add: boot0_sector_def sample_sector_def)
  have fs: "unat (filesize (egon_header_of boot0_sector)) = 4096"
    by (simp add: boot0_sector_header)
  have enough: "128 * sectors_after 512 (unat (filesize (egon_header_of boot0_sector))) \<le>
      length (ahead (sample_stream 896))"
    by (simp add: fs sectors_after_def sample_stream_def)
  have ref: "checksum_reference (boot0_sector @ ahead (sample_stream 896)) 4096 = 0xc7ae0992"
    unfolding checksum_reference_closed [OF len]
    by (simp add: sectors_after_def sample_stream_def boot0_sector_def sample_sector_def
        EGON_CHECKSUM_SEED_def sum_list_replicate)
  from egon_checksum_is_reference [OF len enough] len enough ref show ?thesis
    by (simp add: fs)
qed

subsection \<open>The checksum when one word changes\<close>

lemma sum_list_update_word:
  "k < length xs \<Longrightarrow> sum_list (xs[k := v]) = sum_list xs - xs ! k + (v :: u32)"
proof (induction xs arbitrary: k)
  case Nil
  then show ?case by simp
next
  case (Cons x xs)
  then show ?case by (cases k) simp_all
qed

lemma filesize_of_sector: "filesize (egon_header_of sector0) = sector0 ! 4"
  by (simp add: egon_header_of_def)

lemma filesize_of_update:
  "p \<noteq> 4 \<Longrightarrow> filesize (egon_header_of (sector0[p := v])) = filesize (egon_header_of sector0)"
  by (simp add: egon_header_of_def)

lemma egon_checksum_sum_value:
  assumes "length sector0 = 128"
    and "128 * sectors_after 512 (unat (filesize header)) \<le> length (ahead inp)"
  shows "fst (egon_checksum_sum header sector0 inp) =
     Inr (EGON_CHECKSUM_SEED + (sum_list sector0 - sector0 ! 3) +
          sum_list (take (128 * sectors_after 512 (unat (filesize header))) (ahead inp)))"
  using assms egon_checksum_sum_closed [of sector0 header inp] by (simp add: sizes)
lemma boot0_sector_length: "length boot0_sector = 128"
  by (simp add: boot0_sector_def sample_sector_def)

lemma boot0_sector_filesize: "filesize (egon_header_of boot0_sector) = 4096"
  by (simp add: filesize_of_sector boot0_sector_def sample_sector_def)

lemma boot0_sector_sum: "sum_list boot0_sector - boot0_sector ! 3 = 0x68a399d9"
  by (simp add: boot0_sector_def sample_sector_def sum_list_replicate)

text \<open>
  Claim C9, as amended. Take an image whose sectors the stream holds in full. Changing
  one word of sector 0 other than word 3 (the checksum) and word 4 (the file size), or
  one word of a later sector of the image, to a different value changes the computed
  checksum; changing word 3 leaves it as it was.
\<close>

theorem checksum_changes_with_word:
  assumes len: "length sector0 = 128"
    and enough: "128 * sectors_after 512 (unat (filesize (egon_header_of sector0))) \<le>
      length (ahead inp)"
  shows "(p < 128 \<and> p \<noteq> 3 \<and> p \<noteq> 4 \<and> v \<noteq> sector0 ! p \<longrightarrow>
      (\<exists>c c'. fst (egon_checksum_sum (egon_header_of sector0) sector0 inp) = Inr c \<and>
         fst (egon_checksum_sum (egon_header_of (sector0[p := v])) (sector0[p := v]) inp) =
           Inr c' \<and> c' \<noteq> c)) \<and>
    (q < 128 * sectors_after 512 (unat (filesize (egon_header_of sector0))) \<and>
     v \<noteq> ahead inp ! q \<longrightarrow>
      (\<exists>c c'. fst (egon_checksum_sum (egon_header_of sector0) sector0 inp) = Inr c \<and>
         fst (egon_checksum_sum (egon_header_of sector0) sector0
                (inp\<lparr>ahead := (ahead inp)[q := v]\<rparr>)) = Inr c' \<and> c' \<noteq> c)) \<and>
    fst (egon_checksum_sum (egon_header_of (sector0[3 := v])) (sector0[3 := v]) inp) =
      fst (egon_checksum_sum (egon_header_of sector0) sector0 inp)"
proof -
  let ?n = "128 * sectors_after 512 (unat (filesize (egon_header_of sector0)))"
  note orig = egon_checksum_sum_value [OF len enough]
  have first: "\<exists>c c'. fst (egon_checksum_sum (egon_header_of sector0) sector0 inp) = Inr c \<and>
         fst (egon_checksum_sum (egon_header_of (sector0[p := v])) (sector0[p := v]) inp) =
           Inr c' \<and> c' \<noteq> c"
    if p: "p < 128 \<and> p \<noteq> 3 \<and> p \<noteq> 4 \<and> v \<noteq> sector0 ! p"
  proof -
    have fs: "filesize (egon_header_of (sector0[p := v])) = filesize (egon_header_of sector0)"
      using p by (simp add: filesize_of_update)
    have "fst (egon_checksum_sum (egon_header_of (sector0[p := v])) (sector0[p := v]) inp) =
        Inr (EGON_CHECKSUM_SEED + (sum_list (sector0[p := v]) - sector0[p := v] ! 3) +
             sum_list (take ?n (ahead inp)))"
      using egon_checksum_sum_value [of "sector0[p := v]" "egon_header_of (sector0[p := v])" inp]
        len enough by (simp add: fs)
    moreover have "sum_list (sector0[p := v]) - sector0[p := v] ! 3 \<noteq>
        sum_list sector0 - sector0 ! 3"
      using p len by (simp add: sum_list_update_word)
    ultimately show ?thesis
      using orig by simp
  qed
  have later: "\<exists>c c'. fst (egon_checksum_sum (egon_header_of sector0) sector0 inp) = Inr c \<and>
         fst (egon_checksum_sum (egon_header_of sector0) sector0
                (inp\<lparr>ahead := (ahead inp)[q := v]\<rparr>)) = Inr c' \<and> c' \<noteq> c"
    if q: "q < ?n \<and> v \<noteq> ahead inp ! q"
  proof -
    have qlen: "q < length (take ?n (ahead inp))" using q enough by simp
    have "take ?n ((ahead inp)[q := v]) = (take ?n (ahead inp))[q := v]"
      by (simp add: take_update_swap)
    then have "sum_list (take ?n ((ahead inp)[q := v])) =
        sum_list (take ?n (ahead inp)) - ahead inp ! q + v"
      using qlen q by (simp add: sum_list_update_word)
    then have neq: "sum_list (take ?n ((ahead inp)[q := v])) \<noteq> sum_list (take ?n (ahead inp))"
      using q by simp
    have "fst (egon_checksum_sum (egon_header_of sector0) sector0
                (inp\<lparr>ahead := (ahead inp)[q := v]\<rparr>)) =
        Inr (EGON_CHECKSUM_SEED + (sum_list sector0 - sector0 ! 3) +
             sum_list (take ?n ((ahead inp)[q := v])))"
      using egon_checksum_sum_value [of sector0 "egon_header_of sector0"
          "inp\<lparr>ahead := (ahead inp)[q := v]\<rparr>"] len enough by simp
    then show ?thesis
      using orig neq by simp
  qed
  have fs3: "filesize (egon_header_of (sector0[3 := v])) = filesize (egon_header_of sector0)"
    by (simp add: filesize_of_update)
  have "sum_list (sector0[3 := v]) - sector0[3 := v] ! 3 = sum_list sector0 - sector0 ! 3"
    using len by (simp add: sum_list_update_word)
  then have own: "fst (egon_checksum_sum (egon_header_of (sector0[3 := v])) (sector0[3 := v]) inp) =
      fst (egon_checksum_sum (egon_header_of sector0) sector0 inp)"
    using egon_checksum_sum_value [of "sector0[3 := v]" "egon_header_of (sector0[3 := v])" inp]
      len enough orig by (simp add: fs3)
  from first later own show ?thesis by blast
qed

theorem checksum_changes_with_word_witness:
  "length boot0_sector = 128 \<and>
   128 * sectors_after 512 (unat (filesize (egon_header_of boot0_sector))) \<le>
     length (ahead (sample_stream 896)) \<and>
   boot0_sector ! 0 \<noteq> 7 \<and> ahead (sample_stream 896) ! 200 \<noteq> 7 \<and>
   fst (egon_checksum_sum (egon_header_of (boot0_sector[0 := 7])) (boot0_sector[0 := 7])
          (sample_stream 896)) \<noteq>
     fst (egon_checksum_sum (egon_header_of boot0_sector) boot0_sector (sample_stream 896)) \<and>
   fst (egon_checksum_sum (egon_header_of boot0_sector) boot0_sector
          ((sample_stream 896)\<lparr>ahead := (ahead (sample_stream 896))[200 := 7]\<rparr>)) \<noteq>
     fst (egon_checksum_sum (egon_header_of boot0_sector) boot0_sector (sample_stream 896)) \<and>
   fst (egon_checksum_sum (egon_header_of (boot0_sector[3 := 7])) (boot0_sector[3 := 7])
          (sample_stream 896)) =
     fst (egon_checksum_sum (egon_header_of boot0_sector) boot0_sector (sample_stream 896))"
proof -
  have enough: "128 * sectors_after 512 (unat (filesize (egon_header_of boot0_sector))) \<le>
      length (ahead (sample_stream 896))"
    by (simp add: boot0_sector_filesize sectors_after_def sample_stream_def)
  have p: "(0::nat) < 128 \<and> (0::nat) \<noteq> 3 \<and> (0::nat) \<noteq> 4 \<and> 7 \<noteq> boot0_sector ! 0"
    by (simp add: boot0_sector_def sample_sector_def)
  have q: "200 < 128 * sectors_after 512 (unat (filesize (egon_header_of boot0_sector))) \<and>
      7 \<noteq> ahead (sample_stream 896) ! 200"
    by (simp add: boot0_sector_filesize sectors_after_def sample_stream_def)
  from checksum_changes_with_word [OF boot0_sector_length enough, of 0 7 200] p q
  show ?thesis
    using boot0_sector_length enough by auto
qed

text \<open>
  Claim C9 as stated fails at word 4 of sector 0, which the code reads as the file
  size: that word decides how many sectors are summed. Raising it from 4096 to 8192
  adds 4096 to the sum and brings eight more sectors in; on \<open>cancelling_stream\<close> these
  sum to \<open>- 4096\<close>, and the checksum is the same before and after.
\<close>

theorem checksum_unchanged_by_filesize_counterexample:
  "boot0_sector ! 4 \<noteq> 8192 \<and>
   fst (egon_checksum_sum (egon_header_of boot0_sector) boot0_sector cancelling_stream) =
     Inr 0xc7ae0612 \<and>
   fst (egon_checksum_sum (egon_header_of (boot0_sector[4 := 8192])) (boot0_sector[4 := 8192])
          cancelling_stream) = Inr 0xc7ae0612"
proof -
  have w4: "boot0_sector ! 4 = 4096"
    by (simp add: boot0_sector_def sample_sector_def)
  have e1: "128 * sectors_after 512 (unat (filesize (egon_header_of boot0_sector))) \<le>
      length (ahead cancelling_stream)"
    by (simp add: boot0_sector_filesize sectors_after_def cancelling_stream_def)
  have r1: "fst (egon_checksum_sum (egon_header_of boot0_sector) boot0_sector cancelling_stream) =
      Inr 0xc7ae0612"
    unfolding egon_checksum_sum_value [OF boot0_sector_length e1] boot0_sector_sum
    by (simp add: boot0_sector_filesize sectors_after_def cancelling_stream_def
        EGON_CHECKSUM_SEED_def sum_list_replicate)
  have fs2: "filesize (egon_header_of (boot0_sector[4 := 8192])) = 8192"
    by (simp add: filesize_of_sector boot0_sector_length)
  have l2: "length (boot0_sector[4 := 8192]) = 128"
    by (simp add: boot0_sector_length)
  have e2: "128 * sectors_after 512 (unat (filesize (egon_header_of (boot0_sector[4 := 8192])))) \<le>
      length (ahead cancelling_stream)"
    by (simp add: fs2 sectors_after_def cancelling_stream_def)
  have s2: "sum_list (boot0_sector[4 := 8192]) - boot0_sector[4 := 8192] ! 3 = 0x68a3a9d9"
    using boot0_sector_sum by (simp add: sum_list_update_word boot0_sector_length w4)
  have r2: "fst (egon_checksum_sum (egon_header_of (boot0_sector[4 := 8192]))
      (boot0_sector[4 := 8192]) cancelling_stream) = Inr 0xc7ae0612"
    unfolding egon_checksum_sum_value [OF l2 e2] s2
    by (simp add: fs2 sectors_after_def cancelling_stream_def
        EGON_CHECKSUM_SEED_def sum_list_replicate)
  from w4 r1 r2 show ?thesis by simp
qed

subsection \<open>The header checks\<close>

lemma memcmp_numeral:
  "memcmp (a # as) (b # bs) (numeral k) =
     (if a < b then - 1 else if b < a then 1 else memcmp as bs (pred_numeral k))"
  by (simp add: numeral_eq_Suc)

lemma memcmp_same: "memcmp xs xs n = 0"
proof (induction xs arbitrary: n)
  case Nil
  then show ?case by simp
next
  case (Cons x xs)
  then show ?case by (cases n) simp_all
qed

lemma EGON_MAGIC_0_bytes: "EGON_MAGIC_0 = [0x65, 0x47, 0x4F, 0x4E, 0x2E, 0x42, 0x54, 0x30]"
  by (simp add: EGON_MAGIC_0_def)

lemma EGON_MAGIC_1_bytes: "EGON_MAGIC_1 = [0x65, 0x47, 0x4F, 0x4E, 0x2E, 0x42, 0x54, 0x31]"
  by (simp add: EGON_MAGIC_1_def)

lemma filesize_aligned_iff:
  "filesize header AND (EGON_FILESIZE_ALIGN - 1) = 0 \<longleftrightarrow> 4096 dvd unat (filesize header)"
proof -
  have "filesize header AND (EGON_FILESIZE_ALIGN - 1) = take_bit 12 (filesize header)"
    by (simp add: EGON_FILESIZE_ALIGN_def take_bit_eq_mask mask_numeral)
  moreover have "take_bit 12 (filesize header) = 0 \<longleftrightarrow> unat (take_bit 12 (filesize header)) = 0"
    by (simp add: unat_eq_0)
  moreover have "unat (take_bit 12 (filesize header)) = take_bit 12 (unat (filesize header))"
    by (simp add: unsigned_take_bit_eq)
  moreover have "take_bit 12 (unat (filesize header)) = 0 \<longleftrightarrow> 2 ^ 12 dvd unat (filesize header)"
    by (rule take_bit_eq_0_iff)
  ultimately show ?thesis by simp
qed

lemma sectors_remaining:
  fixes fs :: u32
  assumes "0 < unat fs" and "4096 dvd unat fs"
  shows "uint (fs div of_nat SECTOR_SIZE - 1) = int (unat fs div 512) - 1"
    and "unat (fs - of_nat SECTOR_SIZE) = unat fs - 512"
proof -
  have ge: "4096 \<le> unat fs" using assms by (auto elim: dvdE)
  have d: "unat (fs div 512) = unat fs div 512" by (simp add: unat_div)
  then have "fs div 512 \<noteq> 0" using ge by (auto simp: unat_eq_0 [symmetric])
  then have m: "unat (fs div 512 - 1) = unat (fs div 512) - 1" by (rule unat_minus_one)
  have "uint (fs div 512 - 1) = int (unat (fs div 512 - 1))" by (rule uint_nat)
  also have "\<dots> = int (unat fs div 512 - 1)" unfolding m d ..
  also have "\<dots> = int (unat fs div 512) - 1" using ge by (simp add: of_nat_diff)
  finally show "uint (fs div of_nat SECTOR_SIZE - 1) = int (unat fs div 512) - 1"
    by (simp add: SECTOR_SIZE_def)
  have "(512 :: u32) \<le> fs" using ge by (simp add: word_le_nat_alt)
  then have "unat (fs - 512) = unat fs - unat (512 :: u32)" by (rule unat_sub)
  then show "unat (fs - of_nat SECTOR_SIZE) = unat fs - 512"
    by (simp add: SECTOR_SIZE_def)
qed

lemma header_accepted:
  assumes "valid_boot0_header header"
  shows "\<not> memcmp (magic header) EGON_MAGIC_0 8 > 0"
    and "header_size header = sizeof_egon_header"
    and "filesize header AND (EGON_FILESIZE_ALIGN - 1) = 0"
    and "filesize header \<noteq> 0"
  using assms
  by (auto simp: valid_boot0_header_def memcmp_same sizeof_egon_header_def filesize_aligned_iff)

lemma output_boot0_info_valid:
  assumes "valid_boot0_header (egon_header_of sector)"
  shows "output_boot0_info pseek sector inp verbose =
     (let header = egon_header_of sector in
      if verbose then
        (case egon_checksum_verify header sector inp of (ret, out, inp') \<Rightarrow>
           if ret \<noteq> 0
           then (0, [Found_egon_header, Boot0_filesize_kB (drop_bit 10 (filesize header))] @ out,
                 inp')
           else (int (unat (filesize header) div 512) - 1,
                 [Found_egon_header, Boot0_filesize_kB (drop_bit 10 (filesize header))] @ out @
                 [Looking_for_dram_param] @ snd (dram_param_select (drop 14 sector)),
                 inp'))
      else
        (case pseek inp (filesize header - of_nat SECTOR_SIZE) of (ret, inp') \<Rightarrow>
           if ret \<noteq> 0 then (0, [], inp')
           else (int (unat (filesize header) div 512) - 1, [], inp')))"
proof -
  have v: "0 < unat (filesize (egon_header_of sector))"
      "4096 dvd unat (filesize (egon_header_of sector))"
      "header_size (egon_header_of sector) = 48"
    using assms by (simp_all add: valid_boot0_header_def)
  have checks:
      "(memcmp (magic (egon_header_of sector)) EGON_MAGIC_0 8 > 0) = False"
      "(header_size (egon_header_of sector) \<noteq> sizeof_egon_header) = False"
      "(filesize (egon_header_of sector) AND (EGON_FILESIZE_ALIGN - 1) \<noteq> 0) = False"
      "(filesize (egon_header_of sector) = 0) = False"
    using header_accepted [OF assms] by simp_all
  show ?thesis
    unfolding output_boot0_info_def Let_def checks if_False
      sectors_remaining(1) [OF v(1,2)] v(3)
    by (simp add: SECTOR_SIZE_def sizeof_egon_header_def split: prod.splits)
qed

subsection \<open>The quiet mode\<close>

lemma boot0_sector_valid: "valid_boot0_header (egon_header_of boot0_sector)"
  by (simp add: valid_boot0_header_def boot0_sector_header)

text \<open>
  Claim C6, as amended. For a sector that holds a valid boot0 header (the magic of
  boot0, header size 48, a file size that is a positive multiple of 4096), the quiet
  mode writes nothing and calls the seek function once, on the stream as it was given,
  with \<open>filesize - 512\<close> bytes (the subtraction does not wrap); the stream it leaves
  is the one that this call leaves. It returns \<open>filesize / 512 - 1\<close> when the seek
  returns 0, and 0 when the seek fails.
\<close>

theorem nonverbose_seeks_once:
  assumes "valid_boot0_header (egon_header_of sector)"
  shows "output_boot0_info pseek sector inp False =
     (if fst (pseek inp (filesize (egon_header_of sector) - 512)) = 0
      then int (unat (filesize (egon_header_of sector)) div 512) - 1 else 0,
      [],
      snd (pseek inp (filesize (egon_header_of sector) - 512))) \<and>
    unat (filesize (egon_header_of sector) - 512) = unat (filesize (egon_header_of sector)) - 512"
proof -
  have v: "0 < unat (filesize (egon_header_of sector))"
      "4096 dvd unat (filesize (egon_header_of sector))"
    using assms by (simp_all add: valid_boot0_header_def)
  show ?thesis
    using sectors_remaining(2) [OF v]
    by (simp add: output_boot0_info_valid [OF assms] SECTOR_SIZE_def Let_def
        split: prod.splits)
qed

theorem nonverbose_seeks_once_witness:
  "valid_boot0_header (egon_header_of boot0_sector) \<and>
   output_boot0_info pseek_stream boot0_sector (sample_stream 896) False =
     (7, [], \<lparr>ahead = [], errno = 0, seeks = [3584]\<rparr>)"
proof -
  have "pseek_stream (sample_stream 896) (4096 - 512) =
      (0, \<lparr>ahead = [], errno = 0, seeks = [3584]\<rparr>)"
    by (simp add: pseek_stream_def sample_stream_def)
  with nonverbose_seeks_once [OF boot0_sector_valid, of pseek_stream "sample_stream 896"]
  show ?thesis
    by (simp add: boot0_sector_valid boot0_sector_filesize)
qed

text \<open>
  Claim C6 as stated fails when the seek fails: on a stream that ends with the first
  sector, the valid header of \<open>boot0_sector\<close> gives 0 and not the 7 of
  \<open>4096 / 512 - 1\<close>.
\<close>

theorem failed_seek_counterexample:
  "valid_boot0_header (egon_header_of boot0_sector) \<and>
   unat (filesize (egon_header_of boot0_sector)) div 512 - 1 = 7 \<and>
   output_boot0_info pseek_stream boot0_sector (sample_stream 0) False =
     (0, [], \<lparr>ahead = [], errno = 0, seeks = [3584]\<rparr>)"
proof -
  have "pseek_stream (sample_stream 0) (4096 - 512) =
      (- 1, \<lparr>ahead = [], errno = 0, seeks = [3584]\<rparr>)"
    by (simp add: pseek_stream_def sample_stream_def)
  then show ?thesis
    by (simp add: boot0_sector_valid boot0_sector_filesize
        output_boot0_info_valid [OF boot0_sector_valid] SECTOR_SIZE_def)
qed

subsection \<open>The magic check\<close>

lemma bad_magic_sector_header:
  "egon_header_of bad_magic_sector =
     \<lparr>jump = 0xEA000016, magic = map of_char ''BADMAGIC'', checksum = 0, filesize = 4096,
      header_size = 48, header_version = [0, 0, 0, 0], return_address = 0, run_address = 0,
      eGON_version = [0, 0, 0, 0], platform_info = [0, 0, 0, 0, 0, 0, 0, 0]\<rparr>"
  by (simp add: egon_header_of_def bad_magic_sector_def sample_sector_def le_bytes_def)

lemma boot1_sector_header:
  "egon_header_of boot1_sector =
     \<lparr>jump = 0xEA000016, magic = EGON_MAGIC_1, checksum = 0, filesize = 4096,
      header_size = 48, header_version = [0, 0, 0, 0], return_address = 0, run_address = 0,
      eGON_version = [0, 0, 0, 0], platform_info = [0, 0, 0, 0, 0, 0, 0, 0]\<rparr>"
  by (simp add: egon_header_of_def boot1_sector_def sample_sector_def le_bytes_def
      EGON_MAGIC_1_def)

lemma bad_magic_passes: "memcmp (map of_char ''BADMAGIC'') EGON_MAGIC_0 8 = - 1"
  by (simp add: EGON_MAGIC_0_bytes memcmp_numeral)

lemma bad_magic_differs:
  "map of_char ''BADMAGIC'' \<noteq> EGON_MAGIC_0" "map of_char ''BADMAGIC'' \<noteq> EGON_MAGIC_1"
  by (simp_all add: EGON_MAGIC_0_bytes EGON_MAGIC_1_bytes)

lemma boot1_magic_refused: "memcmp EGON_MAGIC_1 EGON_MAGIC_0 8 = 1"
  by (simp add: EGON_MAGIC_0_bytes EGON_MAGIC_1_bytes memcmp_numeral)

text \<open>
  Claim C2 fails on the code. \<^verbatim>\<open>memcmp(header->magic, EGON_MAGIC_0, 8) > 0\<close> refuses
  only a magic that sorts after "eGON.BT0": the magic "BADMAGIC", which is neither of the
  two constants, passes without a diagnostic and the image is accepted as 8 sectors.
\<close>

theorem bad_magic_accepted:
  "magic (egon_header_of bad_magic_sector) \<noteq> EGON_MAGIC_0 \<and>
   magic (egon_header_of bad_magic_sector) \<noteq> EGON_MAGIC_1 \<and>
   output_boot0_info pseek_stream bad_magic_sector (sample_stream 896) False =
     (7, [], \<lparr>ahead = [], errno = 0, seeks = [3584]\<rparr>)"
  unfolding output_boot0_info_def Let_def bad_magic_sector_header egon_header.simps
    bad_magic_passes
  using bad_magic_differs
  by (simp add: sizeof_egon_header_def EGON_FILESIZE_ALIGN_def
      SECTOR_SIZE_def pseek_stream_def sample_stream_def)

text \<open>The same comparison refuses the magic of boot1, in both modes.\<close>

lemma boot1_rejected:
  "output_boot0_info pseek boot1_sector inp verbose =
     (0, [Wrong_header_magic EGON_MAGIC_1], inp)"
  unfolding output_boot0_info_def Let_def boot1_sector_header egon_header.simps
    boot1_magic_refused
  by simp

subsection \<open>The verbose mode\<close>

lemma output_boot0_info_accepted:
  assumes "\<not> memcmp (magic (egon_header_of sector)) EGON_MAGIC_0 8 > 0"
    and "header_size (egon_header_of sector) = 48"
    and "0 < unat (filesize (egon_header_of sector))"
    and "4096 dvd unat (filesize (egon_header_of sector))"
  shows "output_boot0_info pseek sector inp True =
     (case egon_checksum_verify (egon_header_of sector) sector inp of (ret, out, inp') \<Rightarrow>
        if ret \<noteq> 0
        then (0, [Found_egon_header,
                  Boot0_filesize_kB (drop_bit 10 (filesize (egon_header_of sector)))] @ out,
              inp')
        else (int (unat (filesize (egon_header_of sector)) div 512) - 1,
              [Found_egon_header,
               Boot0_filesize_kB (drop_bit 10 (filesize (egon_header_of sector)))] @ out @
              [Looking_for_dram_param] @ snd (dram_param_select (drop 14 sector)),
              inp'))"
proof -
  have checks:
      "(memcmp (magic (egon_header_of sector)) EGON_MAGIC_0 8 > 0) = False"
      "(header_size (egon_header_of sector) \<noteq> sizeof_egon_header) = False"
      "(filesize (egon_header_of sector) AND (EGON_FILESIZE_ALIGN - 1) \<noteq> 0) = False"
      "(filesize (egon_header_of sector) = 0) = False"
    using assms by (auto simp: sizeof_egon_header_def filesize_aligned_iff)
  show ?thesis
    unfolding output_boot0_info_def Let_def checks if_False
      sectors_remaining(1) [OF assms(3,4)] assms(2)
    by (simp add: SECTOR_SIZE_def sizeof_egon_header_def split: prod.splits)
qed

lemma egon_checksum_sum_short:
  assumes "length (ahead inp) < 128 * sectors_after 512 (unat (filesize header))"
  shows "egon_checksum_sum header sector0 inp =
     (Inl (length (ahead inp) mod 128), inp\<lparr>ahead := []\<rparr>)"
  unfolding egon_checksum_sum_def
  using assms egon_checksum_sectors_short [of inp SECTOR_SIZE "unat (filesize header)"]
  by (simp add: sizes)

lemma dram_param_select_last: "is_dram_report (last (snd (dram_param_select raw)))"
  by (simp add: dram_param_select_def dram_param_a10_print_def dram_param_h6_print_def
      dram_param_a31_print_def dram_param_h616_print_def dram_param_raw_print_def
      split: prod.splits)

lemma boot0_sector_checksum:
  "egon_checksum_sum (egon_header_of boot0_sector) boot0_sector (sample_stream 896) =
     (Inr 0xc7ae0992, (sample_stream 896)\<lparr>ahead := []\<rparr>)"
proof -
  have len: "length boot0_sector = BUFFER_COUNT"
    by (simp add: boot0_sector_length sizes)
  have enough: "BUFFER_COUNT * sectors_after SECTOR_SIZE
      (unat (filesize (egon_header_of boot0_sector))) \<le> length (ahead (sample_stream 896))"
    by (simp add: boot0_sector_filesize sectors_after_def sample_stream_def sizes)
  show ?thesis
    unfolding egon_checksum_sum_closed [OF len enough] sizes boot0_sector_sum
    by (simp add: boot0_sector_filesize sectors_after_def sample_stream_def
        EGON_CHECKSUM_SEED_def sum_list_replicate)
qed

text \<open>
  Claim C8. For a valid boot0 header in verbose mode, when the summing ends with a sum
  that differs from the checksum the header declares, the code writes both values in
  one mismatch line, goes on to the DRAM parameters at word 14 of the sector, whose
  report ends the output, and returns \<open>filesize / 512 - 1\<close>.
\<close>

theorem checksum_mismatch_is_warning:
  assumes "valid_boot0_header (egon_header_of sector)"
    and "fst (egon_checksum_sum (egon_header_of sector) sector inp) = Inr csum"
    and "csum \<noteq> checksum (egon_header_of sector)"
  shows "output_boot0_info pseek sector inp True =
     (int (unat (filesize (egon_header_of sector)) div 512) - 1,
      [Found_egon_header,
       Boot0_filesize_kB (drop_bit 10 (filesize (egon_header_of sector))),
       Checksum_mismatch csum (checksum (egon_header_of sector)),
       Looking_for_dram_param] @ snd (dram_param_select (drop 14 sector)),
      snd (egon_checksum_sum (egon_header_of sector) sector inp)) \<and>
    is_dram_report (last (fst (snd (output_boot0_info pseek sector inp True))))"
proof -
  have acc: "\<not> memcmp (magic (egon_header_of sector)) EGON_MAGIC_0 8 > 0"
      "header_size (egon_header_of sector) = 48"
      "0 < unat (filesize (egon_header_of sector))"
      "4096 dvd unat (filesize (egon_header_of sector))"
    using assms(1) by (simp_all add: valid_boot0_header_def memcmp_same)
  obtain inp' where sum: "egon_checksum_sum (egon_header_of sector) sector inp = (Inr csum, inp')"
    using assms(2) by (cases "egon_checksum_sum (egon_header_of sector) sector inp") simp
  have ver: "egon_checksum_verify (egon_header_of sector) sector inp =
      (0, [Checksum_mismatch csum (checksum (egon_header_of sector))], inp')"
    using assms(3) by (simp add: egon_checksum_verify_def sum)
  have out: "output_boot0_info pseek sector inp True =
     (int (unat (filesize (egon_header_of sector)) div 512) - 1,
      [Found_egon_header,
       Boot0_filesize_kB (drop_bit 10 (filesize (egon_header_of sector))),
       Checksum_mismatch csum (checksum (egon_header_of sector)),
       Looking_for_dram_param] @ snd (dram_param_select (drop 14 sector)),
      snd (egon_checksum_sum (egon_header_of sector) sector inp))"
    unfolding output_boot0_info_accepted [OF acc] ver by (simp add: sum)
  have "snd (dram_param_select (drop 14 sector)) \<noteq> []"
    by (simp add: dram_param_select_def dram_param_a10_print_def dram_param_h6_print_def
      dram_param_a31_print_def dram_param_h616_print_def dram_param_raw_print_def
      split: prod.splits)
  then have "is_dram_report (last (fst (snd (output_boot0_info pseek sector inp True))))"
    unfolding out using dram_param_select_last [of "drop 14 sector"] by simp
  with out show ?thesis by simp
qed

theorem checksum_mismatch_is_warning_witness:
  "valid_boot0_header (egon_header_of boot0_sector) \<and>
   fst (egon_checksum_sum (egon_header_of boot0_sector) boot0_sector (sample_stream 896)) =
     Inr 0xc7ae0992 \<and>
   0xc7ae0992 \<noteq> checksum (egon_header_of boot0_sector) \<and>
   output_boot0_info pseek_stream boot0_sector (sample_stream 896) True =
     (7,
      [Found_egon_header, Boot0_filesize_kB 4, Checksum_mismatch 0xc7ae0992 0,
       Looking_for_dram_param] @ snd (dram_param_select (drop 14 boot0_sector)),
      (sample_stream 896)\<lparr>ahead := []\<rparr>)"
proof -
  have sum: "fst (egon_checksum_sum (egon_header_of boot0_sector) boot0_sector
      (sample_stream 896)) = Inr 0xc7ae0992"
    by (simp add: boot0_sector_checksum)
  have ck: "checksum (egon_header_of boot0_sector) = 0"
    by (simp add: boot0_sector_header)
  have ne: "0xc7ae0992 \<noteq> checksum (egon_header_of boot0_sector)"
    by (simp add: ck)
  from checksum_mismatch_is_warning [OF boot0_sector_valid sum ne, of pseek_stream]
  show ?thesis
    using sum by (simp add: boot0_sector_valid boot0_sector_checksum boot0_sector_filesize ck)
qed

text \<open>
  Claim C5, as amended. For a valid boot0 header in verbose mode, a read that returns
  between 1 and 127 words ends the verification: the one line written for it carries
  the error number, whose text is the cause, and the count of words read; no match or
  mismatch line and no DRAM parameter report follow, and the result is 0.
\<close>

theorem short_read_is_fatal:
  assumes "valid_boot0_header (egon_header_of sector)"
    and "length (ahead inp) < 128 * sectors_after 512 (unat (filesize (egon_header_of sector)))"
    and "length (ahead inp) mod 128 \<noteq> 0"
  shows "egon_checksum_verify (egon_header_of sector) sector inp =
      (int (length (ahead inp) mod 128),
       [Fread_failed (errno inp) (length (ahead inp) mod 128)], inp\<lparr>ahead := []\<rparr>) \<and>
    output_boot0_info pseek sector inp True =
     (0,
      [Found_egon_header,
       Boot0_filesize_kB (drop_bit 10 (filesize (egon_header_of sector))),
       Fread_failed (errno inp) (length (ahead inp) mod 128)],
      inp\<lparr>ahead := []\<rparr>)"
proof -
  have acc: "\<not> memcmp (magic (egon_header_of sector)) EGON_MAGIC_0 8 > 0"
      "header_size (egon_header_of sector) = 48"
      "0 < unat (filesize (egon_header_of sector))"
      "4096 dvd unat (filesize (egon_header_of sector))"
    using assms(1) by (simp_all add: valid_boot0_header_def memcmp_same)
  have ver: "egon_checksum_verify (egon_header_of sector) sector inp =
      (int (length (ahead inp) mod 128),
       [Fread_failed (errno inp) (length (ahead inp) mod 128)], inp\<lparr>ahead := []\<rparr>)"
    by (simp add: egon_checksum_verify_def egon_checksum_sum_short [OF assms(2)])
  show ?thesis
    unfolding output_boot0_info_accepted [OF acc] ver using assms(3) by simp
qed




theorem short_read_is_fatal_witness:
  "valid_boot0_header (egon_header_of boot0_sector) \<and>
   length (ahead (sample_stream 133)) <
     128 * sectors_after 512 (unat (filesize (egon_header_of boot0_sector))) \<and>
   length (ahead (sample_stream 133)) mod 128 \<noteq> 0 \<and>
   output_boot0_info pseek_stream boot0_sector (sample_stream 133) True =
     (0, [Found_egon_header, Boot0_filesize_kB 4, Fread_failed 0 5],
      (sample_stream 133)\<lparr>ahead := []\<rparr>)"
proof -
  have short: "length (ahead (sample_stream 133)) <
      128 * sectors_after 512 (unat (filesize (egon_header_of boot0_sector)))"
    by (simp add: boot0_sector_filesize sectors_after_def sample_stream_def)
  have part: "length (ahead (sample_stream 133)) mod 128 \<noteq> 0"
    by (simp add: sample_stream_def)
  from short_read_is_fatal [OF boot0_sector_valid short part, of pseek_stream]
  show ?thesis
    using short part by (simp add: boot0_sector_valid boot0_sector_filesize sample_stream_def)
qed

text \<open>
  A read that returns no word at all is not covered: \<^verbatim>\<open>egon_checksum_verify\<close>
  returns the count of the short read, the caller reads 0 as success, and the inspection
  goes on after the error line.
\<close>

lemma empty_read_continues:
  assumes "valid_boot0_header (egon_header_of sector)"
    and "length (ahead inp) < 128 * sectors_after 512 (unat (filesize (egon_header_of sector)))"
    and "length (ahead inp) mod 128 = 0"
  shows "output_boot0_info pseek sector inp True =
     (int (unat (filesize (egon_header_of sector)) div 512) - 1,
      [Found_egon_header,
       Boot0_filesize_kB (drop_bit 10 (filesize (egon_header_of sector))),
       Fread_failed (errno inp) 0,
       Looking_for_dram_param] @ snd (dram_param_select (drop 14 sector)),
      inp\<lparr>ahead := []\<rparr>)"
proof -
  have acc: "\<not> memcmp (magic (egon_header_of sector)) EGON_MAGIC_0 8 > 0"
      "header_size (egon_header_of sector) = 48"
      "0 < unat (filesize (egon_header_of sector))"
      "4096 dvd unat (filesize (egon_header_of sector))"
    using assms(1) by (simp_all add: valid_boot0_header_def memcmp_same)
  have ver: "egon_checksum_verify (egon_header_of sector) sector inp =
      (0, [Fread_failed (errno inp) 0], inp\<lparr>ahead := []\<rparr>)"
    using assms(3) by (simp add: egon_checksum_verify_def egon_checksum_sum_short [OF assms(2)])
  show ?thesis
    unfolding output_boot0_info_accepted [OF acc] ver by simp
qed

text \<open>
  Claim C5 as stated fails twice. On a stream that ends with the first sector the read
  returns 0 words, and the call still writes the DRAM parameter report and returns 7.
  And the error line holds the count of words read, not a byte offset: a stream that
  ends 5 words into the sector at byte 512 and one that ends 5 words into the sector
  at byte 1024 give the same line.
\<close>

theorem short_read_counterexample:
  "output_boot0_info pseek_stream boot0_sector (sample_stream 0) True =
     (7,
      [Found_egon_header, Boot0_filesize_kB 4, Fread_failed 0 0, Looking_for_dram_param] @
      snd (dram_param_select (drop 14 boot0_sector)),
      sample_stream 0) \<and>
   is_dram_report
     (last (fst (snd (output_boot0_info pseek_stream boot0_sector (sample_stream 0) True)))) \<and>
   fst (snd (egon_checksum_verify (egon_header_of boot0_sector) boot0_sector (sample_stream 5))) =
     [Fread_failed 0 5] \<and>
   fst (snd (egon_checksum_verify (egon_header_of boot0_sector) boot0_sector
     (sample_stream 133))) = [Fread_failed 0 5]"
proof -
  have run: "output_boot0_info pseek_stream boot0_sector (sample_stream 0) True =
     (7,
      [Found_egon_header, Boot0_filesize_kB 4, Fread_failed 0 0, Looking_for_dram_param] @
      snd (dram_param_select (drop 14 boot0_sector)),
      sample_stream 0)"
    by (subst empty_read_continues [OF boot0_sector_valid])
      (simp_all add: boot0_sector_filesize sectors_after_def sample_stream_def)
  have "snd (dram_param_select (drop 14 boot0_sector)) \<noteq> []"
    by (simp add: dram_param_select_def dram_param_a10_print_def dram_param_h6_print_def
      dram_param_a31_print_def dram_param_h616_print_def dram_param_raw_print_def
      split: prod.splits)
  then have report: "is_dram_report
     (last (fst (snd (output_boot0_info pseek_stream boot0_sector (sample_stream 0) True))))"
    unfolding run using dram_param_select_last [of "drop 14 boot0_sector"] by simp
  have first: "fst (snd (egon_checksum_verify (egon_header_of boot0_sector) boot0_sector
      (sample_stream 5))) = [Fread_failed 0 5]"
    by (subst egon_checksum_verify_def, subst egon_checksum_sum_short)
      (simp_all add: boot0_sector_filesize sectors_after_def sample_stream_def)
  have second: "fst (snd (egon_checksum_verify (egon_header_of boot0_sector) boot0_sector
      (sample_stream 133))) = [Fread_failed 0 5]"
    by (subst egon_checksum_verify_def, subst egon_checksum_sum_short)
      (simp_all add: boot0_sector_filesize sectors_after_def sample_stream_def)
  from run report first second show ?thesis by simp
qed

subsection \<open>The four structural checks\<close>

text \<open>
  Once the magic has passed, a header size other than 48, a file size that is not a
  multiple of 4096 and a file size of 0 each give the result 0 and the line of the
  check that failed, in both modes.
\<close>

lemma other_violations_rejected:
  assumes "\<not> memcmp (magic (egon_header_of sector)) EGON_MAGIC_0 8 > 0"
  shows "header_size (egon_header_of sector) \<noteq> 48 \<Longrightarrow>
      output_boot0_info pseek sector inp verbose =
        (0, [Header_size_mismatch (header_size (egon_header_of sector))], inp)"
    and "header_size (egon_header_of sector) = 48 \<Longrightarrow>
      \<not> 4096 dvd unat (filesize (egon_header_of sector)) \<Longrightarrow>
      output_boot0_info pseek sector inp verbose =
        (0, [Filesize_not_multiple (filesize (egon_header_of sector))], inp)"
    and "header_size (egon_header_of sector) = 48 \<Longrightarrow>
      filesize (egon_header_of sector) = 0 \<Longrightarrow>
      output_boot0_info pseek sector inp verbose = (0, [Filesize_empty 0], inp)"
proof -
  have m: "(memcmp (magic (egon_header_of sector)) EGON_MAGIC_0 8 > 0) = False"
    using assms by simp
  show "header_size (egon_header_of sector) \<noteq> 48 \<Longrightarrow>
      output_boot0_info pseek sector inp verbose =
        (0, [Header_size_mismatch (header_size (egon_header_of sector))], inp)"
    unfolding output_boot0_info_def Let_def m if_False
    by (simp add: sizeof_egon_header_def)
  show "header_size (egon_header_of sector) = 48 \<Longrightarrow>
      \<not> 4096 dvd unat (filesize (egon_header_of sector)) \<Longrightarrow>
      output_boot0_info pseek sector inp verbose =
        (0, [Filesize_not_multiple (filesize (egon_header_of sector))], inp)"
    unfolding output_boot0_info_def Let_def m if_False
    using filesize_aligned_iff [of "egon_header_of sector"]
    by (simp add: sizeof_egon_header_def)
  show "header_size (egon_header_of sector) = 48 \<Longrightarrow>
      filesize (egon_header_of sector) = 0 \<Longrightarrow>
      output_boot0_info pseek sector inp verbose = (0, [Filesize_empty 0], inp)"
    unfolding output_boot0_info_def Let_def m if_False
    by (simp add: sizeof_egon_header_def EGON_FILESIZE_ALIGN_def)
qed

lemma bad_magic_sector_checksum:
  "egon_checksum_sum (egon_header_of bad_magic_sector) bad_magic_sector (sample_stream 896) =
     (Inr 0xd9980882, (sample_stream 896)\<lparr>ahead := []\<rparr>)"
proof -
  have len: "length bad_magic_sector = BUFFER_COUNT"
    by (simp add: bad_magic_sector_def sample_sector_def sizes)
  have fs: "filesize (egon_header_of bad_magic_sector) = 4096"
    by (simp add: bad_magic_sector_header)
  have enough: "BUFFER_COUNT * sectors_after SECTOR_SIZE
      (unat (filesize (egon_header_of bad_magic_sector))) \<le> length (ahead (sample_stream 896))"
    by (simp add: fs sectors_after_def sample_stream_def sizes)
  have sum: "sum_list bad_magic_sector - bad_magic_sector ! 3 = 0x7a8d98c9"
    by (simp add: bad_magic_sector_def sample_sector_def sum_list_replicate)
  show ?thesis
    unfolding egon_checksum_sum_closed [OF len enough] sizes sum
    by (simp add: fs sectors_after_def sample_stream_def
        EGON_CHECKSUM_SEED_def sum_list_replicate)
qed

text \<open>
  Claim C7 fails on the code for the first of the four violations. With every other
  field valid, the magic "BADMAGIC" is not refused: in verbose mode the image is
  announced as an eGON header and inspected to the end, and the result is 7, not 0.
\<close>

theorem bad_magic_inspected:
  "magic (egon_header_of bad_magic_sector) \<noteq> EGON_MAGIC_0 \<and>
   magic (egon_header_of bad_magic_sector) \<noteq> EGON_MAGIC_1 \<and>
   header_size (egon_header_of bad_magic_sector) = 48 \<and>
   filesize (egon_header_of bad_magic_sector) = 4096 \<and>
   output_boot0_info pseek_stream bad_magic_sector (sample_stream 896) True =
     (7,
      [Found_egon_header, Boot0_filesize_kB 4, Checksum_mismatch 0xd9980882 0,
       Looking_for_dram_param] @ snd (dram_param_select (drop 14 bad_magic_sector)),
      (sample_stream 896)\<lparr>ahead := []\<rparr>)"
proof -
  have hdr: "magic (egon_header_of bad_magic_sector) = map of_char ''BADMAGIC''"
      "header_size (egon_header_of bad_magic_sector) = 48"
      "filesize (egon_header_of bad_magic_sector) = 4096"
      "checksum (egon_header_of bad_magic_sector) = 0"
    by (simp_all add: bad_magic_sector_header)
  have acc: "\<not> memcmp (magic (egon_header_of bad_magic_sector)) EGON_MAGIC_0 8 > 0"
      "header_size (egon_header_of bad_magic_sector) = 48"
      "0 < unat (filesize (egon_header_of bad_magic_sector))"
      "4096 dvd unat (filesize (egon_header_of bad_magic_sector))"
    unfolding hdr bad_magic_passes by simp_all
  have ver: "egon_checksum_verify (egon_header_of bad_magic_sector) bad_magic_sector
      (sample_stream 896) =
      (0, [Checksum_mismatch 0xd9980882 0], (sample_stream 896)\<lparr>ahead := []\<rparr>)"
    by (simp add: egon_checksum_verify_def bad_magic_sector_checksum hdr(4))
  have run: "output_boot0_info pseek_stream bad_magic_sector (sample_stream 896) True =
     (7,
      [Found_egon_header, Boot0_filesize_kB 4, Checksum_mismatch 0xd9980882 0,
       Looking_for_dram_param] @ snd (dram_param_select (drop 14 bad_magic_sector)),
      (sample_stream 896)\<lparr>ahead := []\<rparr>)"
    unfolding output_boot0_info_accepted [OF acc] ver by (simp add: hdr(3))
  show ?thesis
    using run bad_magic_differs by (simp add: hdr)
qed

end
